theory Spec2Isabelle
  imports Complex_Main "HOL-Library.Product_Lexorder" "HOL-Library.Multiset"
begin

section \<open>Vectors\<close>

text \<open>
  The program computes with JavaScript numbers. The model computes with exact reals, so
  every statement below is about the algorithm in exact arithmetic; rounding is not
  modelled. The one non-finite number the core produces, \<open>Infinity\<close> for the squared
  radius of a degenerate tetrahedron, is a value of its own.
\<close>

datatype number = Finite real | Infinity

text \<open>\<open>d < r\<close> for a finite \<open>d\<close> and a number \<open>r\<close>.\<close>

fun number_less :: "real \<Rightarrow> number \<Rightarrow> bool" where
  "number_less d (Finite r) = (d < r)"
| "number_less d Infinity = True"

text \<open>
  Temporaries (\<open>a.clone().sub(d)\<close>, the circumcenter) are used for their coordinates
  only, so they are coordinate triples.
\<close>

type_synonym vec = "real \<times> real \<times> real"

text \<open>
  A \<open>THREE.Vector3\<close> that is a mesh vertex is an object: \<open>Array.prototype.includes\<close>
  compares two of them by identity, \<open>Vector3.equals\<close> by coordinates. The core never
  mutates a vertex, so an object is its identity \<open>oid\<close> together with its coordinates.
\<close>

datatype Vector3 = Vector3 (oid: int) (vx: real) (vy: real) (vz: real)

definition coords :: "Vector3 \<Rightarrow> vec" where
  "coords p = (vx p, vy p, vz p)"

text \<open>\<open>Vector3.equals\<close>: \<open>v.x === this.x && v.y === this.y && v.z === this.z\<close>.\<close>

definition equals :: "Vector3 \<Rightarrow> Vector3 \<Rightarrow> bool" where
  "equals v p = (vx v = vx p \<and> vy v = vy p \<and> vz v = vz p)"

text \<open>\<open>xs.includes(p)\<close> on an array of objects: some element is the same object.\<close>

definition array_includes :: "Vector3 list \<Rightarrow> Vector3 \<Rightarrow> bool" where
  "array_includes xs p = (oid p \<in> set (map oid xs))"

fun sub :: "vec \<Rightarrow> vec \<Rightarrow> vec" where
  "sub (x1, y1, z1) (x2, y2, z2) = (x1 - x2, y1 - y2, z1 - z2)"

fun add :: "vec \<Rightarrow> vec \<Rightarrow> vec" where
  "add (x1, y1, z1) (x2, y2, z2) = (x1 + x2, y1 + y2, z1 + z2)"

fun lengthSq :: "vec \<Rightarrow> real" where
  "lengthSq (x, y, z) = x * x + y * y + z * z"

definition distanceToSquared :: "vec \<Rightarrow> vec \<Rightarrow> real" where
  "distanceToSquared p v = lengthSq (sub p v)"

text \<open>
  \<open>Matrix3.set\<close> takes the entries row by row and \<open>Matrix3.determinant\<close> of three.js
  returns \<open>a*e*i - a*f*h - b*d*i + b*f*g + c*d*h - c*e*g\<close> over the column-major
  element array \<open>[a, b, c, d, e, f, g, h, i]\<close>.
\<close>

fun determinant :: "vec \<Rightarrow> vec \<Rightarrow> vec \<Rightarrow> real" where
  "determinant (n11, n12, n13) (n21, n22, n23) (n31, n32, n33) =
     (let a = n11; b = n21; c = n31; d = n12; e = n22; f = n32; g = n13; h = n23; i = n33
      in a * e * i - a * f * h - b * d * i + b * f * g + c * d * h - c * e * g)"

section \<open>Tetrahedron\<close>

record Tetrahedron =
  points :: "Vector3 list"
  circumcenter :: "vec option"
  radiusSq :: number

text \<open>\<open>calcCircumsphere\<close>: the circumcenter (\<open>None\<close> for \<open>null\<close>) and the squared radius.\<close>

definition calcCircumsphere :: "Vector3 list \<Rightarrow> vec option \<times> number" where
  "calcCircumsphere ps =
     (let a = ps ! 0; b = ps ! 1; c = ps ! 2; d = ps ! 3;
          a' = sub (coords a) (coords d);
          b' = sub (coords b) (coords d);
          c' = sub (coords c) (coords d);
          A = lengthSq a';
          B = lengthSq b';
          C = lengthSq c';
          det = determinant a' b' c'
      in if \<bar>det\<bar> < 1 / 10 ^ 12 then (None, Infinity)
         else
           (let invDet = (1 / 2) / det;
                (ax, ay, az) = a';
                (bx, by, bz) = b';
                (cx, cy, cz) = c';
                x = (A * (by * cz - cy * bz) - B * (ay * cz - cy * az) + C * (ay * bz - by * az)) * invDet;
                y = (A * (bz * cx - cz * bx) - B * (az * cx - cz * ax) + C * (az * bx - bz * ax)) * invDet;
                z = (A * (bx * cy - cx * by) - B * (ax * cy - cx * ay) + C * (ax * by - bx * ay)) * invDet;
                cc = add (x, y, z) (coords d)
            in (Some cc, Finite (distanceToSquared cc (coords a)))))"

text \<open>The constructor \<open>new Tetrahedron(p1, p2, p3, p4)\<close>.\<close>

definition new_Tetrahedron :: "Vector3 \<Rightarrow> Vector3 \<Rightarrow> Vector3 \<Rightarrow> Vector3 \<Rightarrow> Tetrahedron" where
  "new_Tetrahedron p1 p2 p3 p4 =
     (let ps = [p1, p2, p3, p4]; cs = calcCircumsphere ps
      in \<lparr>points = ps, circumcenter = fst cs, radiusSq = snd cs\<rparr>)"

definition containsPoint :: "Tetrahedron \<Rightarrow> Vector3 \<Rightarrow> bool" where
  "containsPoint t p = list_ex (\<lambda>v. equals v p) (points t)"

definition circumsphereContains :: "Tetrahedron \<Rightarrow> Vector3 \<Rightarrow> bool" where
  "circumsphereContains t p =
     (case circumcenter t of
        None \<Rightarrow> False
      | Some c \<Rightarrow> number_less (distanceToSquared (coords p) c) (radiusSq t))"

datatype Face = Face (face_a: Vector3) (face_b: Vector3) (face_c: Vector3)

definition getFaces :: "Tetrahedron \<Rightarrow> Face list" where
  "getFaces t =
     (let p = points t
      in [Face (p ! 0) (p ! 1) (p ! 2), Face (p ! 0) (p ! 1) (p ! 3),
          Face (p ! 0) (p ! 2) (p ! 3), Face (p ! 1) (p ! 2) (p ! 3)])"

text \<open>\<open>isAdjacent\<close>: the two nested loops count the pairs of equal vertices.\<close>

definition isAdjacent :: "Tetrahedron \<Rightarrow> Tetrahedron \<Rightarrow> bool" where
  "isAdjacent this other =
     (let common = length (filter (\<lambda>(p1, p2). equals p1 p2) (List.product (points this) (points other)))
      in common = 3)"

section \<open>Delaunay3D\<close>

record Delaunay3D =
  tetrahedra :: "Tetrahedron list"
  superPoints :: "Vector3 list"

text \<open>
  The constructor allocates the four vertices of the super-tetrahedron; they are the
  objects 0 to 3. A vector made by a caller is another object.
\<close>

definition new_Delaunay3D :: "real \<Rightarrow> Delaunay3D" where
  "new_Delaunay3D size_arg =
     (let s = size_arg;
          p1 = Vector3 0 (- s) (- s) (- s);
          p2 = Vector3 1 s (- s) 0;
          p3 = Vector3 2 0 s (- s);
          p4 = Vector3 3 0 (- s) s
      in \<lparr>tetrahedra = [new_Tetrahedron p1 p2 p3 p4], superPoints = [p1, p2, p3, p4]\<rparr>)"

text \<open>
  The key of a face is the string of its three vertices' coordinates, each formatted as
  \<open>x,y,z\<close>, sorted and joined. Formatting is one-to-one on finite numbers (up to the sign
  of zero, which \<open>===\<close> ignores as well), so a vertex string is modelled by the coordinate
  triple, and the sorted, joined string by the sorted list of triples. JavaScript sorts the
  strings by code units; the model sorts the triples lexicographically. Two keys are equal
  under one order exactly when they are under the other.
\<close>

type_synonym key = "vec list"

definition faceKey :: "Face \<Rightarrow> key" where
  "faceKey face = sort (map coords [face_a face, face_b face, face_c face])"

text \<open>
  A JavaScript \<open>Map\<close> keeps its entries in insertion order: an association list, with
  \<open>set\<close> of a new key appending.
\<close>

type_synonym faceMap = "(key \<times> Face) list"

definition map_has :: "faceMap \<Rightarrow> key \<Rightarrow> bool" where
  "map_has m k = (k \<in> set (map fst m))"

definition map_delete :: "faceMap \<Rightarrow> key \<Rightarrow> faceMap" where
  "map_delete m k = filter (\<lambda>e. fst e \<noteq> k) m"

definition map_set :: "faceMap \<Rightarrow> key \<Rightarrow> Face \<Rightarrow> faceMap" where
  "map_set m k v =
     (if map_has m k then map (\<lambda>e. if fst e = k then (k, v) else e) m else m @ [(k, v)])"

text \<open>The body of the inner \<open>forEach\<close> of \<open>addPoint\<close>.\<close>

definition toggleFace :: "faceMap \<Rightarrow> Face \<Rightarrow> faceMap" where
  "toggleFace m face =
     (let k = faceKey face in if map_has m k then map_delete m k else map_set m k face)"

record AddPointResult =
  badTetras :: "Tetrahedron list"
  cavityFaces :: "Face list"
  newTetras :: "Tetrahedron list"

text \<open>\<open>addPoint\<close> returns the three lists and leaves the object in a new state.\<close>

definition addPoint :: "Delaunay3D \<Rightarrow> Vector3 \<Rightarrow> AddPointResult \<times> Delaunay3D" where
  "addPoint this point =
     (let bad = filter (\<lambda>tetra. circumsphereContains tetra point) (tetrahedra this);
          live = filter (\<lambda>tetra. \<not> circumsphereContains tetra point) (tetrahedra this);
          faceMap = foldl (\<lambda>m tetra. foldl toggleFace m (getFaces tetra)) [] bad;
          cavity = map snd faceMap;
          new = map (\<lambda>face. new_Tetrahedron point (face_a face) (face_b face) (face_c face)) cavity
      in (\<lparr>badTetras = bad, cavityFaces = cavity, newTetras = new\<rparr>,
          this\<lparr>tetrahedra := live @ new\<rparr>))"

text \<open>The state after inserting a sequence of points, one call of \<open>addPoint\<close> each.\<close>

definition addPoints :: "Delaunay3D \<Rightarrow> Vector3 list \<Rightarrow> Delaunay3D" where
  "addPoints this ps = foldl (\<lambda>d p. snd (addPoint d p)) this ps"

text \<open>
  \<open>getTriangulation\<close> builds a new array with \<open>filter\<close> and assigns no field: it returns
  the array and leaves the object as it was.
\<close>

definition getTriangulation :: "Delaunay3D \<Rightarrow> Tetrahedron list \<times> Delaunay3D" where
  "getTriangulation this =
     (filter (\<lambda>tetra. \<not> list_ex (\<lambda>p. array_includes (superPoints this) p) (points tetra))
        (tetrahedra this),
      this)"

section \<open>Point generation\<close>

definition BOX_SIZE :: real where
  "BOX_SIZE = 10"

definition JITTER_AMOUNT :: real where
  "JITTER_AMOUNT = 1 / 10 ^ 6"

text \<open>
  One point of \<open>setupSimulation\<close>. The six results of \<open>Math.random()\<close>, each in
  \<open>[0, 1)\<close>, are the arguments: three for the position, three for the jitter.
\<close>

definition setupPoint :: "real \<Rightarrow> real \<Rightarrow> real \<Rightarrow> real \<Rightarrow> real \<Rightarrow> real \<Rightarrow> vec" where
  "setupPoint r1 r2 r3 j1 j2 j3 =
     (let pos = ((r1 - 1 / 2) * BOX_SIZE, (r2 - 1 / 2) * BOX_SIZE, (r3 - 1 / 2) * BOX_SIZE)
      in add pos ((j1 - 1 / 2) * JITTER_AMOUNT, (j2 - 1 / 2) * JITTER_AMOUNT, (j3 - 1 / 2) * JITTER_AMOUNT))"

section \<open>Voronoi edges\<close>

record Box3 =
  box_min :: vec
  box_max :: vec

text \<open>\<open>Box3.containsPoint\<close> of three.js: every coordinate between \<open>min\<close> and \<open>max\<close>, ends included.\<close>

fun Box3_containsPoint :: "Box3 \<Rightarrow> vec \<Rightarrow> bool" where
  "Box3_containsPoint box (x, y, z) =
     (case (box_min box, box_max box) of
        ((x0, y0, z0), (x1, y1, z1)) \<Rightarrow>
          x0 \<le> x \<and> x \<le> x1 \<and> y0 \<le> y \<and> y \<le> y1 \<and> z0 \<le> z \<and> z \<le> z1)"

record Ray =
  origin :: vec
  direction :: vec

text \<open>\<open>Vector3.normalize\<close> of three.js: \<open>divideScalar(length() || 1)\<close>.\<close>

definition normalize :: "vec \<Rightarrow> vec" where
  "normalize v =
     (let l = sqrt (lengthSq v); s = (if l = 0 then 1 else l)
      in case v of (x, y, z) \<Rightarrow> (x / s, y / s, z / s))"

definition bounds :: Box3 where
  "bounds = \<lparr>box_min = (- BOX_SIZE / 2, - BOX_SIZE / 2, - BOX_SIZE / 2),
             box_max = (BOX_SIZE / 2, BOX_SIZE / 2, BOX_SIZE / 2)\<rparr>"

text \<open>The six numbers pushed for a segment.\<close>

fun segment :: "vec \<Rightarrow> vec \<Rightarrow> real list" where
  "segment (x1, y1, z1) (x2, y2, z2) = [x1, y1, z1, x2, y2, z2]"

text \<open>
  The body of the inner loop of \<open>drawVoronoi\<close> for the pair \<open>finalTetras[i]\<close>,
  \<open>finalTetras[j]\<close>: the numbers it pushes onto \<open>positions\<close>. \<open>Ray.intersectBox\<close> is a
  function of three.js; it is the parameter \<open>intersectBox\<close>, returning the point it writes
  to its target, or \<open>None\<close> for \<open>null\<close>.
\<close>

definition voronoiEdge :: "(Ray \<Rightarrow> Box3 \<Rightarrow> vec option) \<Rightarrow> Tetrahedron \<Rightarrow> Tetrahedron \<Rightarrow> real list" where
  "voronoiEdge intersectBox ti tj =
     (if \<not> isAdjacent ti tj then []
      else case (circumcenter ti, circumcenter tj) of
        (None, _) \<Rightarrow> []
      | (Some c1, None) \<Rightarrow> []
      | (Some c1, Some c2) \<Rightarrow>
          (let isC1Inside = Box3_containsPoint bounds c1;
               isC2Inside = Box3_containsPoint bounds c2
           in if isC1Inside \<and> isC2Inside then segment c1 c2
              else if isC1Inside \<and> \<not> isC2Inside then
                (case intersectBox \<lparr>origin = c1, direction = normalize (sub c2 c1)\<rparr> bounds of
                   None \<Rightarrow> []
                 | Some intersectionPoint \<Rightarrow> segment c1 intersectionPoint)
              else if \<not> isC1Inside \<and> isC2Inside then
                (case intersectBox \<lparr>origin = c2, direction = normalize (sub c1 c2)\<rparr> bounds of
                   None \<Rightarrow> []
                 | Some intersectionPoint \<Rightarrow> segment c2 intersectionPoint)
              else []))"

text \<open>The inner loop: \<open>j\<close> runs over the tetrahedra after \<open>finalTetras[i]\<close>.\<close>

fun voronoiInner ::
  "(Ray \<Rightarrow> Box3 \<Rightarrow> vec option) \<Rightarrow> Tetrahedron \<Rightarrow> Tetrahedron list \<Rightarrow> real list \<Rightarrow> real list" where
  "voronoiInner intersectBox ti [] positions = positions"
| "voronoiInner intersectBox ti (tj # rest) positions =
     voronoiInner intersectBox ti rest (positions @ voronoiEdge intersectBox ti tj)"

text \<open>The outer loop: \<open>i\<close> runs over \<open>finalTetras\<close>.\<close>

fun voronoiOuter ::
  "(Ray \<Rightarrow> Box3 \<Rightarrow> vec option) \<Rightarrow> Tetrahedron list \<Rightarrow> real list \<Rightarrow> real list" where
  "voronoiOuter intersectBox [] positions = positions"
| "voronoiOuter intersectBox (ti # rest) positions =
     voronoiOuter intersectBox rest (voronoiInner intersectBox ti rest positions)"

text \<open>\<open>drawVoronoi\<close>: the array \<open>positions\<close> handed to the geometry.\<close>

definition drawVoronoi :: "(Ray \<Rightarrow> Box3 \<Rightarrow> vec option) \<Rightarrow> Delaunay3D \<Rightarrow> real list" where
  "drawVoronoi intersectBox delaunay =
     (let finalTetras = fst (getTriangulation delaunay)
      in voronoiOuter intersectBox finalTetras [])"

section \<open>Notions of the specification\<close>

text \<open>The determinant that \<open>calcCircumsphere\<close> tests, as a function of the four vertices.\<close>

definition edgeDeterminant :: "Vector3 \<Rightarrow> Vector3 \<Rightarrow> Vector3 \<Rightarrow> Vector3 \<Rightarrow> real" where
  "edgeDeterminant a b c d =
     determinant (sub (coords a) (coords d)) (sub (coords b) (coords d)) (sub (coords c) (coords d))"

text \<open>All faces of a list of tetrahedra, in the order \<open>addPoint\<close> visits them.\<close>

definition allFaces :: "Tetrahedron list \<Rightarrow> Face list" where
  "allFaces ts = concat (map getFaces ts)"

text \<open>How many faces of the tetrahedra \<open>ts\<close> have the key \<open>k\<close>.\<close>

definition occurrences :: "key \<Rightarrow> Tetrahedron list \<Rightarrow> nat" where
  "occurrences k ts = count_list (map faceKey (allFaces ts)) k"

text \<open>The tetrahedra of \<open>ts\<close> that have a face with the key \<open>k\<close>.\<close>

definition tetrasWithFace :: "key \<Rightarrow> Tetrahedron list \<Rightarrow> Tetrahedron list" where
  "tetrasWithFace k ts = filter (\<lambda>t. k \<in> set (map faceKey (getFaces t))) ts"

text \<open>The final query as the specification words it: a filter by coordinate value.\<close>

definition triangulationByValue :: "Delaunay3D \<Rightarrow> Tetrahedron list" where
  "triangulationByValue this =
     filter (\<lambda>tetra. \<not> list_ex (\<lambda>p. list_ex (\<lambda>sp. equals sp p) (superPoints this)) (points tetra))
       (tetrahedra this)"

text \<open>
  A point lies strictly inside the convex hull of four points when it is a convex
  combination of them with four positive weights.
\<close>

definition strictlyInsideHull :: "Vector3 list \<Rightarrow> vec \<Rightarrow> bool" where
  "strictlyInsideHull ps p =
     (\<exists>l1 l2 l3 l4. 0 < l1 \<and> 0 < l2 \<and> 0 < l3 \<and> 0 < l4 \<and> l1 + l2 + l3 + l4 = 1 \<and>
        p = (l1 * vx (ps ! 0) + l2 * vx (ps ! 1) + l3 * vx (ps ! 2) + l4 * vx (ps ! 3),
             l1 * vy (ps ! 0) + l2 * vy (ps ! 1) + l3 * vy (ps ! 2) + l4 * vy (ps ! 3),
             l1 * vz (ps ! 0) + l2 * vz (ps ! 1) + l3 * vz (ps ! 2) + l4 * vz (ps ! 3)))"

text \<open>The unordered pairs of a list, each once, the earlier element first.\<close>

fun pairs :: "'a list \<Rightarrow> ('a \<times> 'a) list" where
  "pairs [] = []"
| "pairs (x # xs) = map (Pair x) xs @ pairs xs"

text \<open>
  The invariant of the loop that fills the face map, after the faces \<open>fs\<close>: the keys are
  distinct, every entry holds a face of \<open>fs\<close> under its own key, and a key is present
  exactly when it has been met an odd number of times.
\<close>

definition map_ok :: "faceMap \<Rightarrow> Face list \<Rightarrow> bool" where
  "map_ok m fs \<longleftrightarrow>
     distinct (map fst m)
     \<and> (\<forall>e \<in> set m. fst e = faceKey (snd e) \<and> snd e \<in> set fs)
     \<and> (\<forall>k. k \<in> set (map fst m) \<longleftrightarrow> odd (count_list (map faceKey fs) k))"

text \<open>A tetrahedron built by the constructor, the only code that makes one.\<close>

definition constructed :: "Tetrahedron \<Rightarrow> bool" where
  "constructed t \<longleftrightarrow> (\<exists>p1 p2 p3 p4. t = new_Tetrahedron p1 p2 p3 p4)"

section \<open>Fixtures of the examples\<close>

text \<open>The four vertices of the super-tetrahedron of size 20.\<close>

abbreviation (input) sp1 :: Vector3 where "sp1 \<equiv> Vector3 0 (- 20) (- 20) (- 20)"
abbreviation (input) sp2 :: Vector3 where "sp2 \<equiv> Vector3 1 20 (- 20) 0"
abbreviation (input) sp3 :: Vector3 where "sp3 \<equiv> Vector3 2 0 20 (- 20)"
abbreviation (input) sp4 :: Vector3 where "sp4 \<equiv> Vector3 3 0 (- 20) 20"

text \<open>
  Five points to insert, and the states that inserting \<open>q1\<close>, \<open>q2\<close>, \<open>q3\<close>, \<open>q4\<close> and
  \<open>q5\<close> in this order leads to. The first four lie in the bounding box. \<open>q5\<close> has the
  coordinates of the second vertex of the super-tetrahedron and is another object.
\<close>

abbreviation (input) q1 :: Vector3 where "q1 \<equiv> Vector3 4 0 (- 2) (- 1)"
abbreviation (input) q2 :: Vector3 where "q2 \<equiv> Vector3 5 (- 3) 0 0"
abbreviation (input) q3 :: Vector3 where "q3 \<equiv> Vector3 6 0 (- 4) (- 1)"
abbreviation (input) q4 :: Vector3 where "q4 \<equiv> Vector3 7 (- 2) 4 (- 4)"
abbreviation (input) q5 :: Vector3 where "q5 \<equiv> Vector3 8 20 (- 20) 0"

abbreviation (input) state0 :: Delaunay3D where
  "state0 \<equiv> \<lparr>tetrahedra =
       [new_Tetrahedron sp1 sp2 sp3 sp4],
      superPoints = [sp1, sp2, sp3, sp4]\<rparr>"

abbreviation (input) state1 :: Delaunay3D where
  "state1 \<equiv> \<lparr>tetrahedra =
       [new_Tetrahedron q1 sp1 sp2 sp3,
        new_Tetrahedron q1 sp1 sp2 sp4,
        new_Tetrahedron q1 sp1 sp3 sp4,
        new_Tetrahedron q1 sp2 sp3 sp4],
      superPoints = [sp1, sp2, sp3, sp4]\<rparr>"

abbreviation (input) state2 :: Delaunay3D where
  "state2 \<equiv> \<lparr>tetrahedra =
       [new_Tetrahedron q1 sp1 sp2 sp3,
        new_Tetrahedron q1 sp1 sp2 sp4,
        new_Tetrahedron q1 sp2 sp3 sp4,
        new_Tetrahedron q2 q1 sp1 sp3,
        new_Tetrahedron q2 q1 sp1 sp4,
        new_Tetrahedron q2 q1 sp3 sp4,
        new_Tetrahedron q2 sp1 sp3 sp4],
      superPoints = [sp1, sp2, sp3, sp4]\<rparr>"

abbreviation (input) state3 :: Delaunay3D where
  "state3 \<equiv> \<lparr>tetrahedra =
       [new_Tetrahedron q1 sp2 sp3 sp4,
        new_Tetrahedron q2 q1 sp1 sp3,
        new_Tetrahedron q2 q1 sp3 sp4,
        new_Tetrahedron q3 q1 sp1 sp3,
        new_Tetrahedron q3 q1 sp2 sp3,
        new_Tetrahedron q3 sp1 sp2 sp3,
        new_Tetrahedron q3 q1 sp2 sp4,
        new_Tetrahedron q3 sp1 sp2 sp4,
        new_Tetrahedron q3 q2 q1 sp1,
        new_Tetrahedron q3 q2 q1 sp4,
        new_Tetrahedron q3 q2 sp1 sp3,
        new_Tetrahedron q3 q2 sp3 sp4,
        new_Tetrahedron q3 sp1 sp3 sp4],
      superPoints = [sp1, sp2, sp3, sp4]\<rparr>"

abbreviation (input) state4 :: Delaunay3D where
  "state4 \<equiv> \<lparr>tetrahedra =
       [new_Tetrahedron q3 sp1 sp2 sp3,
        new_Tetrahedron q3 q1 sp2 sp4,
        new_Tetrahedron q3 sp1 sp2 sp4,
        new_Tetrahedron q3 q2 q1 sp4,
        new_Tetrahedron q4 q1 sp2 sp4,
        new_Tetrahedron q4 sp2 sp3 sp4,
        new_Tetrahedron q4 q2 q1 sp4,
        new_Tetrahedron q4 q3 q1 sp2,
        new_Tetrahedron q4 q3 sp2 sp3,
        new_Tetrahedron q4 q3 q2 q1,
        new_Tetrahedron q4 q3 q2 sp4,
        new_Tetrahedron q4 q3 sp1 sp3,
        new_Tetrahedron q4 q3 sp1 sp4,
        new_Tetrahedron q4 sp1 sp3 sp4],
      superPoints = [sp1, sp2, sp3, sp4]\<rparr>"

abbreviation (input) state5 :: Delaunay3D where
  "state5 \<equiv> \<lparr>tetrahedra =
       [new_Tetrahedron q3 sp1 sp2 sp3,
        new_Tetrahedron q3 q1 sp2 sp4,
        new_Tetrahedron q3 sp1 sp2 sp4,
        new_Tetrahedron q3 q2 q1 sp4,
        new_Tetrahedron q4 q1 sp2 sp4,
        new_Tetrahedron q4 sp2 sp3 sp4,
        new_Tetrahedron q4 q2 q1 sp4,
        new_Tetrahedron q4 q3 q1 sp2,
        new_Tetrahedron q4 q3 sp2 sp3,
        new_Tetrahedron q4 q3 q2 q1,
        new_Tetrahedron q4 q3 sp1 sp3,
        new_Tetrahedron q4 q3 sp1 sp4,
        new_Tetrahedron q5 q4 q3 q2,
        new_Tetrahedron q5 q4 q3 sp4,
        new_Tetrahedron q5 q4 q2 sp4,
        new_Tetrahedron q5 q3 q2 sp4,
        new_Tetrahedron q5 q4 sp1 sp3,
        new_Tetrahedron q5 q4 sp1 sp4,
        new_Tetrahedron q5 q4 sp3 sp4,
        new_Tetrahedron q5 sp1 sp3 sp4],
      superPoints = [sp1, sp2, sp3, sp4]\<rparr>"

text \<open>
  Tetrahedra for the instances of the Voronoi cases, and two stand-ins for
  \<open>Ray.intersectBox\<close>: one that answers a ray from the point (1/2, 1/2, 1/2) with a given
  point, one that always answers \<open>null\<close>.
\<close>

abbreviation (input) a0 :: Vector3 where "a0 \<equiv> Vector3 4 0 0 0"
abbreviation (input) a1 :: Vector3 where "a1 \<equiv> Vector3 5 1 0 0"
abbreviation (input) a2 :: Vector3 where "a2 \<equiv> Vector3 6 0 1 0"
abbreviation (input) a3 :: Vector3 where "a3 \<equiv> Vector3 7 0 0 1"
abbreviation (input) a4 :: Vector3 where "a4 \<equiv> Vector3 8 1 1 1"
abbreviation (input) a5 :: Vector3 where "a5 \<equiv> Vector3 9 10 10 10"
abbreviation (input) a6 :: Vector3 where "a6 \<equiv> Vector3 10 11 11 11"
abbreviation (input) exit_at :: "vec \<Rightarrow> Ray \<Rightarrow> Box3 \<Rightarrow> vec option" where
  "exit_at x \<equiv> \<lambda>ray box. if origin ray = (1 / 2, 1 / 2, 1 / 2) then Some x else None"
abbreviation (input) miss :: "Ray \<Rightarrow> Box3 \<Rightarrow> vec option" where
  "miss \<equiv> \<lambda>ray box. None"

section \<open>The circumsphere\<close>

text \<open>Cramer's rule for the three numerators of calcCircumsphere.\<close>

lemma cramer_row_a:
  fixes ax ay az bx "by" bz cx cy cz A B C :: real
  shows "ax * (A * (by * cz - cy * bz) - B * (ay * cz - cy * az) + C * (ay * bz - by * az))
       + ay * (A * (bz * cx - cz * bx) - B * (az * cx - cz * ax) + C * (az * bx - bz * ax))
       + az * (A * (bx * cy - cx * by) - B * (ax * cy - cx * ay) + C * (ax * by - bx * ay))
       = A * determinant (ax, ay, az) (bx, by, bz) (cx, cy, cz)"
  by (simp add: algebra_simps)

lemma cramer_row_b:
  fixes ax ay az bx "by" bz cx cy cz A B C :: real
  shows "bx * (A * (by * cz - cy * bz) - B * (ay * cz - cy * az) + C * (ay * bz - by * az))
       + by * (A * (bz * cx - cz * bx) - B * (az * cx - cz * ax) + C * (az * bx - bz * ax))
       + bz * (A * (bx * cy - cx * by) - B * (ax * cy - cx * ay) + C * (ax * by - bx * ay))
       = B * determinant (ax, ay, az) (bx, by, bz) (cx, cy, cz)"
  by (simp add: algebra_simps)

lemma cramer_row_c:
  fixes ax ay az bx "by" bz cx cy cz A B C :: real
  shows "cx * (A * (by * cz - cy * bz) - B * (ay * cz - cy * az) + C * (ay * bz - by * az))
       + cy * (A * (bz * cx - cz * bx) - B * (az * cx - cz * ax) + C * (az * bx - bz * ax))
       + cz * (A * (bx * cy - cx * by) - B * (ax * cy - cx * ay) + C * (ax * by - bx * ay))
       = C * determinant (ax, ay, az) (bx, by, bz) (cx, cy, cz)"
  by (simp add: algebra_simps)

text \<open>A point u with 2 u.v = |v|^2 is as far from v as from the origin.\<close>

lemma equidistant:
  fixes ux uy uz px py pz :: real
  assumes "2 * (px * ux + py * uy + pz * uz) = px * px + py * py + pz * pz"
  shows "(ux - px) * (ux - px) + (uy - py) * (uy - py) + (uz - pz) * (uz - pz) = ux * ux + uy * uy + uz * uz"
  using assms by (simp add: algebra_simps)

lemma calcCircumsphere_degenerate:
  assumes "\<bar>edgeDeterminant a b c d\<bar> < 1 / 10 ^ 12"
  shows "calcCircumsphere [a, b, c, d] = (None, Infinity)"
  using assms unfolding calcCircumsphere_def edgeDeterminant_def by (simp add: Let_def)

lemma calcCircumsphere_regular:
  assumes nd: "\<not> \<bar>edgeDeterminant a b c d\<bar> < 1 / 10 ^ 12"
  shows "\<exists>ux uy uz.
           calcCircumsphere [a, b, c, d]
             = (Some (add (ux, uy, uz) (coords d)),
                Finite (distanceToSquared (add (ux, uy, uz) (coords d)) (coords a)))
         \<and> 2 * ((vx a - vx d) * ux + (vy a - vy d) * uy + (vz a - vz d) * uz) = lengthSq (sub (coords a) (coords d))
         \<and> 2 * ((vx b - vx d) * ux + (vy b - vy d) * uy + (vz b - vz d) * uz) = lengthSq (sub (coords b) (coords d))
         \<and> 2 * ((vx c - vx d) * ux + (vy c - vy d) * uy + (vz c - vz d) * uz) = lengthSq (sub (coords c) (coords d))"
proof -
  define ax ay az where "ax = vx a - vx d" and "ay = vy a - vy d" and "az = vz a - vz d"
  define bx "by" bz where "bx = vx b - vx d" and "by = vy b - vy d" and "bz = vz b - vz d"
  define cx cy cz where "cx = vx c - vx d" and "cy = vy c - vy d" and "cz = vz c - vz d"
  define A B C where "A = ax * ax + ay * ay + az * az" and "B = bx * bx + by * by + bz * bz"
    and "C = cx * cx + cy * cy + cz * cz"
  define det where "det = determinant (ax, ay, az) (bx, by, bz) (cx, cy, cz)"
  define X where "X = A * (by * cz - cy * bz) - B * (ay * cz - cy * az) + C * (ay * bz - by * az)"
  define Y where "Y = A * (bz * cx - cz * bx) - B * (az * cx - cz * ax) + C * (az * bx - bz * ax)"
  define Z where "Z = A * (bx * cy - cx * by) - B * (ax * cy - cx * ay) + C * (ax * by - bx * ay)"
  have sa: "sub (coords a) (coords d) = (ax, ay, az)"
    and sb: "sub (coords b) (coords d) = (bx, by, bz)"
    and sc: "sub (coords c) (coords d) = (cx, cy, cz)"
    by (simp_all add: coords_def ax_def ay_def az_def bx_def by_def bz_def cx_def cy_def cz_def)
  have det_eq: "edgeDeterminant a b c d = det"
    unfolding edgeDeterminant_def sa sb sc det_def ..
  from nd have big: "\<not> \<bar>det\<bar> < 1 / 10 ^ 12" unfolding det_eq .
  then have nz: "det \<noteq> 0" by auto
  have calc: "calcCircumsphere [a, b, c, d]
      = (Some (add (X * ((1 / 2) / det), Y * ((1 / 2) / det), Z * ((1 / 2) / det)) (coords d)),
         Finite (distanceToSquared
           (add (X * ((1 / 2) / det), Y * ((1 / 2) / det), Z * ((1 / 2) / det)) (coords d)) (coords a)))"
    unfolding calcCircumsphere_def
    using big
    by (simp add: sa sb sc Let_def A_def B_def C_def X_def Y_def Z_def flip: det_def del: determinant.simps)
  have ra: "ax * X + ay * Y + az * Z = A * det"
    unfolding X_def Y_def Z_def det_def by (rule cramer_row_a)
  have rb: "bx * X + by * Y + bz * Z = B * det"
    unfolding X_def Y_def Z_def det_def by (rule cramer_row_b)
  have rc: "cx * X + cy * Y + cz * Z = C * det"
    unfolding X_def Y_def Z_def det_def by (rule cramer_row_c)
  have ea: "2 * (ax * (X * ((1 / 2) / det)) + ay * (Y * ((1 / 2) / det)) + az * (Z * ((1 / 2) / det))) = A"
  proof -
    have "2 * (ax * (X * ((1 / 2) / det)) + ay * (Y * ((1 / 2) / det)) + az * (Z * ((1 / 2) / det)))
        = (ax * X + ay * Y + az * Z) / det"
      using nz by (simp add: field_simps)
    also have "\<dots> = A" using nz by (simp add: ra)
    finally show ?thesis .
  qed
  have eb: "2 * (bx * (X * ((1 / 2) / det)) + by * (Y * ((1 / 2) / det)) + bz * (Z * ((1 / 2) / det))) = B"
  proof -
    have "2 * (bx * (X * ((1 / 2) / det)) + by * (Y * ((1 / 2) / det)) + bz * (Z * ((1 / 2) / det)))
        = (bx * X + by * Y + bz * Z) / det"
      using nz by (simp add: field_simps)
    also have "\<dots> = B" using nz by (simp add: rb)
    finally show ?thesis .
  qed
  have ec: "2 * (cx * (X * ((1 / 2) / det)) + cy * (Y * ((1 / 2) / det)) + cz * (Z * ((1 / 2) / det))) = C"
  proof -
    have "2 * (cx * (X * ((1 / 2) / det)) + cy * (Y * ((1 / 2) / det)) + cz * (Z * ((1 / 2) / det)))
        = (cx * X + cy * Y + cz * Z) / det"
      using nz by (simp add: field_simps)
    also have "\<dots> = C" using nz by (simp add: rc)
    finally show ?thesis .
  qed
  show ?thesis
    apply (rule exI [of _ "X * ((1 / 2) / det)"])
    apply (rule exI [of _ "Y * ((1 / 2) / det)"])
    apply (rule exI [of _ "Z * ((1 / 2) / det)"])
    apply (intro conjI)
       apply (rule calc)
    using ea apply (simp add: ax_def ay_def az_def sa A_def B_def C_def)
    using eb apply (simp add: bx_def by_def bz_def sb A_def B_def C_def)
    using ec apply (simp add: cx_def cy_def cz_def sc A_def B_def C_def)
    done
qed


lemma distanceToSquared_commute: "distanceToSquared p v = distanceToSquared v p"
  by (cases p, cases v) (simp add: distanceToSquared_def algebra_simps)

lemma distance_from_shifted:
  assumes "2 * ((vx a - vx d) * ux + (vy a - vy d) * uy + (vz a - vz d) * uz)
             = lengthSq (sub (coords a) (coords d))"
  shows "distanceToSquared (add (ux, uy, uz) (coords d)) (coords a) = ux * ux + uy * uy + uz * uz"
proof -
  have "(ux - (vx a - vx d)) * (ux - (vx a - vx d)) + (uy - (vy a - vy d)) * (uy - (vy a - vy d))
      + (uz - (vz a - vz d)) * (uz - (vz a - vz d)) = ux * ux + uy * uy + uz * uz"
    by (rule equidistant) (use assms in \<open>simp add: coords_def\<close>)
  then show ?thesis
    by (simp add: distanceToSquared_def coords_def algebra_simps)
qed

lemma distance_from_shifted_base:
  "distanceToSquared (add (ux, uy, uz) (coords d)) (coords d) = ux * ux + uy * uy + uz * uz"
  by (simp add: distanceToSquared_def coords_def)

text \<open>
  The sphere of a tetrahedron whose determinant passes the test goes through its four
  vertices.
\<close>

lemma new_Tetrahedron_equidistant:
  assumes "\<not> \<bar>edgeDeterminant p1 p2 p3 p4\<bar> < 1 / 10 ^ 12"
  shows "\<exists>c r. circumcenter (new_Tetrahedron p1 p2 p3 p4) = Some c
             \<and> radiusSq (new_Tetrahedron p1 p2 p3 p4) = Finite r
             \<and> distanceToSquared c (coords p1) = r \<and> distanceToSquared c (coords p2) = r
             \<and> distanceToSquared c (coords p3) = r \<and> distanceToSquared c (coords p4) = r"
proof -
  from calcCircumsphere_regular [OF assms] obtain ux uy uz where
    calc: "calcCircumsphere [p1, p2, p3, p4]
             = (Some (add (ux, uy, uz) (coords p4)),
                Finite (distanceToSquared (add (ux, uy, uz) (coords p4)) (coords p1)))"
    and e1: "2 * ((vx p1 - vx p4) * ux + (vy p1 - vy p4) * uy + (vz p1 - vz p4) * uz)
               = lengthSq (sub (coords p1) (coords p4))"
    and e2: "2 * ((vx p2 - vx p4) * ux + (vy p2 - vy p4) * uy + (vz p2 - vz p4) * uz)
               = lengthSq (sub (coords p2) (coords p4))"
    and e3: "2 * ((vx p3 - vx p4) * ux + (vy p3 - vy p4) * uy + (vz p3 - vz p4) * uz)
               = lengthSq (sub (coords p3) (coords p4))"
    by blast
  let ?c = "add (ux, uy, uz) (coords p4)"
  let ?r = "ux * ux + uy * uy + uz * uz"
  have d1: "distanceToSquared ?c (coords p1) = ?r" by (rule distance_from_shifted [OF e1])
  have d2: "distanceToSquared ?c (coords p2) = ?r" by (rule distance_from_shifted [OF e2])
  have d3: "distanceToSquared ?c (coords p3) = ?r" by (rule distance_from_shifted [OF e3])
  have d4: "distanceToSquared ?c (coords p4) = ?r" by (rule distance_from_shifted_base)
  have cc: "circumcenter (new_Tetrahedron p1 p2 p3 p4) = Some ?c"
    by (simp add: new_Tetrahedron_def Let_def calc)
  have rr: "radiusSq (new_Tetrahedron p1 p2 p3 p4) = Finite ?r"
    by (simp add: new_Tetrahedron_def Let_def calc d1)
  from cc rr d1 d2 d3 d4 show ?thesis by blast
qed

lemma new_Tetrahedron_degenerate:
  assumes "\<bar>edgeDeterminant p1 p2 p3 p4\<bar> < 1 / 10 ^ 12"
  shows "circumcenter (new_Tetrahedron p1 p2 p3 p4) = None"
    and "radiusSq (new_Tetrahedron p1 p2 p3 p4) = Infinity"
  by (simp_all add: new_Tetrahedron_def Let_def calcCircumsphere_degenerate [OF assms])

lemma points_new_Tetrahedron [simp]: "points (new_Tetrahedron p1 p2 p3 p4) = [p1, p2, p3, p4]"
  by (simp add: new_Tetrahedron_def Let_def)

lemma case_prod_weak_cong: "p = q \<Longrightarrow> case_prod f p = case_prod f q"
  by simp

lemmas circumsphere_eval =
  circumsphereContains_def new_Tetrahedron_def calcCircumsphere_def coords_def
  distanceToSquared_def edgeDeterminant_def Let_def

text \<open>
  C6. For four points whose edge-vector determinant is at least 1e-12 in absolute value,
  the circumcenter that calcCircumsphere computes is at the same squared distance from
  each of the four vertices, and radiusSq is that squared distance: the sphere passes
  through all four vertices (in exact arithmetic).
\<close>

theorem circumsphere_through_vertices:
  assumes "1 / 10 ^ 12 \<le> \<bar>edgeDeterminant p1 p2 p3 p4\<bar>"
  shows "\<exists>c r. circumcenter (new_Tetrahedron p1 p2 p3 p4) = Some c
             \<and> radiusSq (new_Tetrahedron p1 p2 p3 p4) = Finite r
             \<and> distanceToSquared c (coords p1) = r \<and> distanceToSquared c (coords p2) = r
             \<and> distanceToSquared c (coords p3) = r \<and> distanceToSquared c (coords p4) = r"
  by (rule new_Tetrahedron_equidistant) (use assms in simp)

theorem circumsphere_through_vertices_witness:
  "1 / 10 ^ 12 \<le> \<bar>edgeDeterminant sp1 sp2 sp3 sp4\<bar>
   \<and> (\<exists>c r. circumcenter (new_Tetrahedron sp1 sp2 sp3 sp4) = Some c
             \<and> radiusSq (new_Tetrahedron sp1 sp2 sp3 sp4) = Finite r
             \<and> distanceToSquared c (coords sp1) = r \<and> distanceToSquared c (coords sp2) = r
             \<and> distanceToSquared c (coords sp3) = r \<and> distanceToSquared c (coords sp4) = r)"
proof -
  have h: "1 / 10 ^ 12 \<le> \<bar>edgeDeterminant sp1 sp2 sp3 sp4\<bar>"
    by (simp add: edgeDeterminant_def coords_def)
  from h circumsphere_through_vertices [OF h] show ?thesis by (rule conjI)
qed

lemma circumsphereContains_iff:
  "circumsphereContains t p \<longleftrightarrow>
     (\<exists>c. circumcenter t = Some c \<and> number_less (distanceToSquared (coords p) c) (radiusSq t))"
  by (simp add: circumsphereContains_def split: option.splits)

lemma circumcenter_defined_iff:
  "circumcenter (new_Tetrahedron p1 p2 p3 p4) \<noteq> None \<longleftrightarrow> \<not> \<bar>edgeDeterminant p1 p2 p3 p4\<bar> < 1 / 10 ^ 12"
proof (cases "\<bar>edgeDeterminant p1 p2 p3 p4\<bar> < 1 / 10 ^ 12")
  case True
  then show ?thesis by (simp add: new_Tetrahedron_degenerate)
next
  case False
  from new_Tetrahedron_equidistant [OF False] show ?thesis using False by auto
qed

lemma radiusSq_finite_iff:
  "(\<exists>r. radiusSq (new_Tetrahedron p1 p2 p3 p4) = Finite r) \<longleftrightarrow> circumcenter (new_Tetrahedron p1 p2 p3 p4) \<noteq> None"
proof (cases "\<bar>edgeDeterminant p1 p2 p3 p4\<bar> < 1 / 10 ^ 12")
  case True
  then show ?thesis by (simp add: new_Tetrahedron_degenerate)
next
  case False
  from new_Tetrahedron_equidistant [OF False] show ?thesis by auto
qed

text \<open>
  C5. For every tetrahedron t built by the constructor and every point p,
  circumsphereContains t p is true exactly when t is not degenerate (its circumcenter is
  defined, its squared radius finite) and the squared distance from p to the circumcenter is
  strictly less than the squared radius. A point whose squared distance equals the squared
  radius is not inside. A tetrahedron whose edge-vector determinant is below 1e-12 in
  absolute value has no circumcenter and an infinite radiusSq, and contains no point; these
  are the only tetrahedra with no circumcenter.
\<close>

theorem circumsphereContains_spec:
  "(circumsphereContains (new_Tetrahedron p1 p2 p3 p4) p \<longleftrightarrow>
      (\<exists>c r. circumcenter (new_Tetrahedron p1 p2 p3 p4) = Some c
            \<and> radiusSq (new_Tetrahedron p1 p2 p3 p4) = Finite r
            \<and> distanceToSquared (coords p) c < r))
   \<and> (circumcenter (new_Tetrahedron p1 p2 p3 p4) = Some c
        \<and> radiusSq (new_Tetrahedron p1 p2 p3 p4) = Finite r
        \<and> distanceToSquared (coords p) c = r
      \<longrightarrow> \<not> circumsphereContains (new_Tetrahedron p1 p2 p3 p4) p)
   \<and> (\<bar>edgeDeterminant p1 p2 p3 p4\<bar> < 1 / 10 ^ 12
      \<longrightarrow> circumcenter (new_Tetrahedron p1 p2 p3 p4) = None
        \<and> radiusSq (new_Tetrahedron p1 p2 p3 p4) = Infinity
        \<and> \<not> circumsphereContains (new_Tetrahedron p1 p2 p3 p4) p)
   \<and> (circumcenter (new_Tetrahedron p1 p2 p3 p4) = None
      \<longleftrightarrow> \<bar>edgeDeterminant p1 p2 p3 p4\<bar> < 1 / 10 ^ 12)"
proof (intro conjI impI)
  let ?t = "new_Tetrahedron p1 p2 p3 p4"
  show "circumsphereContains ?t p \<longleftrightarrow>
      (\<exists>c r. circumcenter ?t = Some c \<and> radiusSq ?t = Finite r \<and> distanceToSquared (coords p) c < r)"
  proof
    assume csc: "circumsphereContains ?t p"
    then obtain c where c: "circumcenter ?t = Some c"
      and lt: "number_less (distanceToSquared (coords p) c) (radiusSq ?t)"
      by (auto simp: circumsphereContains_iff)
    from c radiusSq_finite_iff [of p1 p2 p3 p4] obtain r where r: "radiusSq ?t = Finite r" by auto
    with lt have "distanceToSquared (coords p) c < r" by simp
    with c r show "\<exists>c r. circumcenter ?t = Some c \<and> radiusSq ?t = Finite r \<and> distanceToSquared (coords p) c < r"
      by blast
  next
    assume "\<exists>c r. circumcenter ?t = Some c \<and> radiusSq ?t = Finite r \<and> distanceToSquared (coords p) c < r"
    then show "circumsphereContains ?t p" by (auto simp: circumsphereContains_iff)
  qed
next
  assume "circumcenter (new_Tetrahedron p1 p2 p3 p4) = Some c
        \<and> radiusSq (new_Tetrahedron p1 p2 p3 p4) = Finite r
        \<and> distanceToSquared (coords p) c = r"
  then show "\<not> circumsphereContains (new_Tetrahedron p1 p2 p3 p4) p"
    by (simp add: circumsphereContains_def)
next
  assume d: "\<bar>edgeDeterminant p1 p2 p3 p4\<bar> < 1 / 10 ^ 12"
  then show "circumcenter (new_Tetrahedron p1 p2 p3 p4) = None"
    and "radiusSq (new_Tetrahedron p1 p2 p3 p4) = Infinity"
    by (simp_all add: new_Tetrahedron_degenerate)
  then show "\<not> circumsphereContains (new_Tetrahedron p1 p2 p3 p4) p"
    by (simp add: circumsphereContains_def)
next
  show "circumcenter (new_Tetrahedron p1 p2 p3 p4) = None
      \<longleftrightarrow> \<bar>edgeDeterminant p1 p2 p3 p4\<bar> < 1 / 10 ^ 12"
    using circumcenter_defined_iff [of p1 p2 p3 p4] by blast
qed

text \<open>
  The instances: a flat tetrahedron, and the super-tetrahedron of size 20 queried at its own
  second vertex and at the origin.
\<close>

theorem circumsphereContains_spec_witness:
  "\<bar>edgeDeterminant (Vector3 4 0 0 0) (Vector3 5 1 0 0) (Vector3 6 0 1 0) (Vector3 7 1 1 0)\<bar> < 1 / 10 ^ 12
   \<and> \<not> circumsphereContains
         (new_Tetrahedron (Vector3 4 0 0 0) (Vector3 5 1 0 0) (Vector3 6 0 1 0) (Vector3 7 1 1 0))
         (Vector3 8 (1 / 2) (1 / 2) 0)
   \<and> circumcenter (new_Tetrahedron sp1 sp2 sp3 sp4) = Some (- (10 / 3), - (10 / 3), - (10 / 3))
   \<and> radiusSq (new_Tetrahedron sp1 sp2 sp3 sp4) = Finite (2500 / 3)
   \<and> distanceToSquared (coords sp2) (- (10 / 3), - (10 / 3), - (10 / 3)) = 2500 / 3
   \<and> \<not> circumsphereContains (new_Tetrahedron sp1 sp2 sp3 sp4) sp2
   \<and> circumsphereContains (new_Tetrahedron sp1 sp2 sp3 sp4) (Vector3 4 0 0 0)"
proof -
  have flat: "\<bar>edgeDeterminant (Vector3 4 0 0 0) (Vector3 5 1 0 0) (Vector3 6 0 1 0) (Vector3 7 1 1 0)\<bar> < 1 / 10 ^ 12"
    by (simp add: edgeDeterminant_def coords_def)
  have cc: "circumcenter (new_Tetrahedron sp1 sp2 sp3 sp4) = Some (- (10 / 3), - (10 / 3), - (10 / 3))"
    by (simp add: circumsphere_eval cong: let_weak_cong case_prod_weak_cong)
  have rr: "radiusSq (new_Tetrahedron sp1 sp2 sp3 sp4) = Finite (2500 / 3)"
    by (simp add: circumsphere_eval cong: let_weak_cong case_prod_weak_cong)
  have dd: "distanceToSquared (coords sp2) (- (10 / 3), - (10 / 3), - (10 / 3)) = 2500 / 3"
    by (simp add: distanceToSquared_def coords_def)
  have d0: "distanceToSquared (coords (Vector3 4 0 0 0)) (- (10 / 3), - (10 / 3), - (10 / 3)) < 2500 / 3"
    by (simp add: distanceToSquared_def coords_def)
  note a = circumsphereContains_spec [of "Vector3 4 0 0 0" "Vector3 5 1 0 0" "Vector3 6 0 1 0" "Vector3 7 1 1 0"
      "Vector3 8 (1 / 2) (1 / 2) 0"]
  note b = circumsphereContains_spec [of sp1 sp2 sp3 sp4 sp2 "(- (10 / 3), - (10 / 3), - (10 / 3))" "2500 / 3"]
  note c = circumsphereContains_spec [of sp1 sp2 sp3 sp4 "Vector3 4 0 0 0"]
  from a flat have 1: "\<not> circumsphereContains
         (new_Tetrahedron (Vector3 4 0 0 0) (Vector3 5 1 0 0) (Vector3 6 0 1 0) (Vector3 7 1 1 0))
         (Vector3 8 (1 / 2) (1 / 2) 0)" by blast
  from b cc rr dd have 2: "\<not> circumsphereContains (new_Tetrahedron sp1 sp2 sp3 sp4) sp2" by blast
  from c cc rr d0 have 3: "circumsphereContains (new_Tetrahedron sp1 sp2 sp3 sp4) (Vector3 4 0 0 0)" by blast
  from flat 1 cc rr dd 2 3 show ?thesis by blast
qed

text \<open>
  C10. A tetrahedron never contains its own vertices in its circumsphere: when the
  edge-vector determinant of its four points is at least 1e-12 in absolute value, a point q
  equal in value to one of its vertices is at squared distance exactly radiusSq from the
  circumcenter, so circumsphereContains q is false, and addPoint q never puts that
  tetrahedron among the bad ones.
\<close>

theorem own_vertex_not_inside:
  assumes nd: "1 / 10 ^ 12 \<le> \<bar>edgeDeterminant p1 p2 p3 p4\<bar>"
    and v: "v \<in> set (points (new_Tetrahedron p1 p2 p3 p4))"
    and eq: "equals v q"
  shows "(\<exists>c r. circumcenter (new_Tetrahedron p1 p2 p3 p4) = Some c
             \<and> radiusSq (new_Tetrahedron p1 p2 p3 p4) = Finite r
             \<and> distanceToSquared (coords q) c = r)
         \<and> \<not> circumsphereContains (new_Tetrahedron p1 p2 p3 p4) q
         \<and> new_Tetrahedron p1 p2 p3 p4 \<notin> set (badTetras (fst (addPoint d q)))"
proof -
  let ?t = "new_Tetrahedron p1 p2 p3 p4"
  from nd have "\<not> \<bar>edgeDeterminant p1 p2 p3 p4\<bar> < 1 / 10 ^ 12" by simp
  from new_Tetrahedron_equidistant [OF this] obtain c r where
    c: "circumcenter ?t = Some c" and r: "radiusSq ?t = Finite r"
    and d: "distanceToSquared c (coords p1) = r" "distanceToSquared c (coords p2) = r"
      "distanceToSquared c (coords p3) = r" "distanceToSquared c (coords p4) = r"
    by blast
  from eq have cq: "coords q = coords v" by (simp add: equals_def coords_def)
  from v have "v = p1 \<or> v = p2 \<or> v = p3 \<or> v = p4" by simp
  with d have "distanceToSquared c (coords v) = r" by blast
  then have dq: "distanceToSquared (coords q) c = r"
    by (simp add: cq distanceToSquared_commute [of "coords v" c])
  then have no: "\<not> circumsphereContains ?t q"
    by (simp add: circumsphereContains_def c r)
  then have "?t \<notin> set (badTetras (fst (addPoint d q)))"
    by (simp add: addPoint_def Let_def)
  with c r dq no show ?thesis by blast
qed

theorem own_vertex_not_inside_witness:
  "1 / 10 ^ 12 \<le> \<bar>edgeDeterminant sp1 sp2 sp3 sp4\<bar>
   \<and> sp3 \<in> set (points (new_Tetrahedron sp1 sp2 sp3 sp4))
   \<and> equals sp3 (Vector3 4 0 20 (- 20))
   \<and> \<not> circumsphereContains (new_Tetrahedron sp1 sp2 sp3 sp4) (Vector3 4 0 20 (- 20))
   \<and> new_Tetrahedron sp1 sp2 sp3 sp4 \<notin> set (badTetras (fst (addPoint (new_Delaunay3D 20) (Vector3 4 0 20 (- 20)))))"
proof -
  have h1: "1 / 10 ^ 12 \<le> \<bar>edgeDeterminant sp1 sp2 sp3 sp4\<bar>"
    by (simp add: edgeDeterminant_def coords_def)
  have h2: "sp3 \<in> set (points (new_Tetrahedron sp1 sp2 sp3 sp4))" by simp
  have h3: "equals sp3 (Vector3 4 0 20 (- 20))" by (simp add: equals_def)
  from own_vertex_not_inside [OF h1 h2 h3, of "new_Delaunay3D 20"] h1 h2 h3 show ?thesis by blast
qed

section \<open>Conservation of addPoint\<close>

lemma badTetras_addPoint:
  "badTetras (fst (addPoint d p)) = filter (\<lambda>t. circumsphereContains t p) (tetrahedra d)"
  by (simp add: addPoint_def Let_def)

lemma tetrahedra_addPoint:
  "tetrahedra (snd (addPoint d p))
     = filter (\<lambda>t. \<not> circumsphereContains t p) (tetrahedra d) @ newTetras (fst (addPoint d p))"
  by (simp add: addPoint_def Let_def)

lemma superPoints_addPoint: "superPoints (snd (addPoint d p)) = superPoints d"
  by (simp add: addPoint_def Let_def)

lemma newTetras_addPoint:
  "newTetras (fst (addPoint d p))
     = map (\<lambda>face. new_Tetrahedron p (face_a face) (face_b face) (face_c face))
         (cavityFaces (fst (addPoint d p)))"
  by (simp add: addPoint_def Let_def)

lemma foldl_nested:
  "foldl (\<lambda>m t. foldl g m (h t)) m ts = foldl g m (concat (map h ts))"
  by (induction ts arbitrary: m) simp_all

lemma cavityFaces_addPoint:
  "cavityFaces (fst (addPoint d p))
     = map snd (foldl toggleFace [] (allFaces (badTetras (fst (addPoint d p)))))"
  by (simp add: addPoint_def Let_def allFaces_def foldl_nested)

text \<open>
  C3. Conservation and frame: for every call addPoint p on any state, the removed list is
  exactly the previously live tetrahedra whose circumsphere strictly contains p (in their
  order), every other previously live tetrahedron stays in the live list as it was, the
  created tetrahedra are appended, the super-tetrahedron vertices are kept, and the size of
  the live list afterwards is the size before, minus the number removed, plus the number
  created.
\<close>

theorem addPoint_conservation:
  "badTetras (fst (addPoint d p)) = filter (\<lambda>t. circumsphereContains t p) (tetrahedra d)
   \<and> set (badTetras (fst (addPoint d p))) = {t \<in> set (tetrahedra d). circumsphereContains t p}
   \<and> tetrahedra (snd (addPoint d p))
       = filter (\<lambda>t. \<not> circumsphereContains t p) (tetrahedra d) @ newTetras (fst (addPoint d p))
   \<and> set (tetrahedra (snd (addPoint d p)))
       = (set (tetrahedra d) - set (badTetras (fst (addPoint d p)))) \<union> set (newTetras (fst (addPoint d p)))
   \<and> superPoints (snd (addPoint d p)) = superPoints d
   \<and> int (length (tetrahedra (snd (addPoint d p))))
       = int (length (tetrahedra d)) - int (length (badTetras (fst (addPoint d p))))
         + int (length (newTetras (fst (addPoint d p))))"
proof -
  let ?r = "fst (addPoint d p)" and ?d = "snd (addPoint d p)"
  have b: "badTetras ?r = filter (\<lambda>t. circumsphereContains t p) (tetrahedra d)"
    by (rule badTetras_addPoint)
  have t: "tetrahedra ?d = filter (\<lambda>t. \<not> circumsphereContains t p) (tetrahedra d) @ newTetras ?r"
    by (rule tetrahedra_addPoint)
  have bs: "set (badTetras ?r) = {t \<in> set (tetrahedra d). circumsphereContains t p}"
    by (simp add: b)
  have ts: "set (tetrahedra ?d) = (set (tetrahedra d) - set (badTetras ?r)) \<union> set (newTetras ?r)"
    unfolding t bs by auto
  have "length (filter (\<lambda>t. circumsphereContains t p) (tetrahedra d))
      + length (filter (\<lambda>t. \<not> circumsphereContains t p) (tetrahedra d)) = length (tetrahedra d)"
    by (rule sum_length_filter_compl)
  then have n: "int (length (tetrahedra ?d))
      = int (length (tetrahedra d)) - int (length (badTetras ?r)) + int (length (newTetras ?r))"
    unfolding t b by simp
  from b bs t ts superPoints_addPoint [of d p] n show ?thesis by blast
qed

section \<open>The Voronoi loops\<close>

lemma voronoiInner_concat:
  "voronoiInner ib ti rest positions = positions @ concat (map (voronoiEdge ib ti) rest)"
  by (induction rest arbitrary: positions) simp_all

lemma voronoiOuter_concat:
  "voronoiOuter ib ts positions
     = positions @ concat (map (\<lambda>(ti, tj). voronoiEdge ib ti tj) (pairs ts))"
  by (induction ts arbitrary: positions) (simp_all add: voronoiInner_concat comp_def)

text \<open>
  C8. Voronoi clipping: the positions that drawVoronoi pushes are, for the unordered pairs of
  the final triangulation in loop order, what the loop body pushes for the pair. For an
  adjacent pair with two circumcenters the body pushes the segment between the
  circumcenters when both lie in the bounding box; when exactly one lies in the box, the
  segment from that one to the point that intersectBox returns for the ray from it towards
  the other one, and nothing when intersectBox returns null; nothing when both lie outside
  the box. It pushes nothing when a circumcenter is undefined or the pair is not adjacent.
\<close>

theorem voronoi_clipping:
  "drawVoronoi ib d = concat (map (\<lambda>(ti, tj). voronoiEdge ib ti tj) (pairs (fst (getTriangulation d))))
   \<and> (isAdjacent ti tj \<and> circumcenter ti = Some c1 \<and> circumcenter tj = Some c2
        \<and> Box3_containsPoint bounds c1 \<and> Box3_containsPoint bounds c2
       \<longrightarrow> voronoiEdge ib ti tj = segment c1 c2)
   \<and> (isAdjacent ti tj \<and> circumcenter ti = Some c1 \<and> circumcenter tj = Some c2
        \<and> Box3_containsPoint bounds c1 \<and> \<not> Box3_containsPoint bounds c2
       \<longrightarrow> voronoiEdge ib ti tj
           = (case ib \<lparr>origin = c1, direction = normalize (sub c2 c1)\<rparr> bounds of
                None \<Rightarrow> [] | Some x \<Rightarrow> segment c1 x))
   \<and> (isAdjacent ti tj \<and> circumcenter ti = Some c1 \<and> circumcenter tj = Some c2
        \<and> \<not> Box3_containsPoint bounds c1 \<and> Box3_containsPoint bounds c2
       \<longrightarrow> voronoiEdge ib ti tj
           = (case ib \<lparr>origin = c2, direction = normalize (sub c1 c2)\<rparr> bounds of
                None \<Rightarrow> [] | Some x \<Rightarrow> segment c2 x))
   \<and> (circumcenter ti = Some c1 \<and> circumcenter tj = Some c2
        \<and> \<not> Box3_containsPoint bounds c1 \<and> \<not> Box3_containsPoint bounds c2
       \<longrightarrow> voronoiEdge ib ti tj = [])
   \<and> (circumcenter ti = None \<or> circumcenter tj = None \<or> \<not> isAdjacent ti tj
       \<longrightarrow> voronoiEdge ib ti tj = [])"
proof (intro conjI impI)
  show "drawVoronoi ib d = concat (map (\<lambda>(ti, tj). voronoiEdge ib ti tj) (pairs (fst (getTriangulation d))))"
    by (simp add: drawVoronoi_def Let_def voronoiOuter_concat)
qed (auto simp: voronoiEdge_def Let_def split: option.splits)

section \<open>The face map\<close>

lemma map_ok_empty: "map_ok [] []"
  by (simp add: map_ok_def)

lemma map_ok_toggle:
  assumes "map_ok m fs"
  shows "map_ok (toggleFace m x) (fs @ [x])"
proof (cases "map_has m (faceKey x)")
  case True
  then have t: "toggleFace m x = filter (\<lambda>e. fst e \<noteq> faceKey x) m"
    by (simp add: toggleFace_def Let_def map_delete_def)
  from True have inm: "faceKey x \<in> set (map fst m)" by (simp add: map_has_def)
  from assms have d: "distinct (map fst m)"
    and v: "\<forall>e \<in> set m. fst e = faceKey (snd e) \<and> snd e \<in> set fs"
    and c: "\<forall>k. k \<in> set (map fst m) \<longleftrightarrow> odd (count_list (map faceKey fs) k)"
    unfolding map_ok_def by blast+
  have d': "distinct (map fst (filter (\<lambda>e. fst e \<noteq> faceKey x) m))"
    using d by (rule distinct_map_filter)
  have v': "\<forall>e \<in> set (filter (\<lambda>e. fst e \<noteq> faceKey x) m). fst e = faceKey (snd e) \<and> snd e \<in> set (fs @ [x])"
    using v by auto
  have keys: "set (map fst (filter (\<lambda>e. fst e \<noteq> faceKey x) m)) = set (map fst m) - {faceKey x}"
    by auto
  have c': "\<forall>k. k \<in> set (map fst (filter (\<lambda>e. fst e \<noteq> faceKey x) m))
          \<longleftrightarrow> odd (count_list (map faceKey (fs @ [x])) k)"
  proof
    fix k
    show "k \<in> set (map fst (filter (\<lambda>e. fst e \<noteq> faceKey x) m))
          \<longleftrightarrow> odd (count_list (map faceKey (fs @ [x])) k)"
    proof (cases "k = faceKey x")
      case True
      with inm c have "odd (count_list (map faceKey fs) k)" by blast
      with True show ?thesis unfolding keys by simp
    next
      case False
      with c show ?thesis unfolding keys by simp
    qed
  qed
  from d' v' c' show ?thesis unfolding t map_ok_def by blast
next
  case False
  then have t: "toggleFace m x = m @ [(faceKey x, x)]"
    by (simp add: toggleFace_def Let_def map_set_def)
  from False have notin: "faceKey x \<notin> set (map fst m)" by (simp add: map_has_def)
  from assms have d: "distinct (map fst m)"
    and v: "\<forall>e \<in> set m. fst e = faceKey (snd e) \<and> snd e \<in> set fs"
    and c: "\<forall>k. k \<in> set (map fst m) \<longleftrightarrow> odd (count_list (map faceKey fs) k)"
    unfolding map_ok_def by blast+
  have d': "distinct (map fst (m @ [(faceKey x, x)]))"
    using d notin by simp
  have v': "\<forall>e \<in> set (m @ [(faceKey x, x)]). fst e = faceKey (snd e) \<and> snd e \<in> set (fs @ [x])"
    using v by auto
  have c': "\<forall>k. k \<in> set (map fst (m @ [(faceKey x, x)]))
          \<longleftrightarrow> odd (count_list (map faceKey (fs @ [x])) k)"
  proof
    fix k
    show "k \<in> set (map fst (m @ [(faceKey x, x)]))
          \<longleftrightarrow> odd (count_list (map faceKey (fs @ [x])) k)"
    proof (cases "k = faceKey x")
      case True
      with notin c have "even (count_list (map faceKey fs) k)" by blast
      with True show ?thesis by simp
    next
      case False
      with c show ?thesis by simp
    qed
  qed
  from d' v' c' show ?thesis unfolding t map_ok_def by blast
qed

lemma map_ok_foldl: "map_ok (foldl toggleFace [] fs) fs"
proof (induction fs rule: rev_induct)
  case Nil
  show ?case by (simp add: map_ok_empty)
next
  case (snoc x xs)
  then show ?case by (simp add: map_ok_toggle)
qed

lemma cavity_keys:
  "map faceKey (map snd m) = map fst m" if "\<forall>e \<in> set m. fst e = faceKey (snd e) \<and> snd e \<in> set fs"
  using that by (induction m) auto

lemma cavity_properties:
  fixes d p
  defines "bad \<equiv> badTetras (fst (addPoint d p))"
    and "cav \<equiv> cavityFaces (fst (addPoint d p))"
  shows "distinct (map faceKey cav)"
    and "set cav \<subseteq> set (allFaces bad)"
    and "k \<in> set (map faceKey cav) \<longleftrightarrow> odd (occurrences k bad)"
proof -
  let ?m = "foldl toggleFace [] (allFaces bad)"
  have cav: "cav = map snd ?m"
    unfolding cav_def bad_def by (rule cavityFaces_addPoint)
  have ok: "map_ok ?m (allFaces bad)" by (rule map_ok_foldl)
  then have v: "\<forall>e \<in> set ?m. fst e = faceKey (snd e) \<and> snd e \<in> set (allFaces bad)"
    unfolding map_ok_def by blast
  have keys: "map faceKey cav = map fst ?m"
    unfolding cav by (rule cavity_keys [OF v])
  from ok show "distinct (map faceKey cav)" unfolding keys map_ok_def by blast
  from v show "set cav \<subseteq> set (allFaces bad)" unfolding cav by auto
  from ok show "k \<in> set (map faceKey cav) \<longleftrightarrow> odd (occurrences k bad)"
    unfolding keys occurrences_def map_ok_def by blast
qed

section \<open>Face keys\<close>

text \<open>
  The key identifies a face by the coordinates of its three vertices, whatever their
  order and whichever objects carry them.
\<close>

lemma sort_eq_iff_mset:
  fixes xs ys :: "('a :: linorder) list"
  shows "sort xs = sort ys \<longleftrightarrow> mset xs = mset ys"
proof
  assume "sort xs = sort ys"
  then have "mset (sort xs) = mset (sort ys)" by simp
  then show "mset xs = mset ys" by simp
next
  assume "mset xs = mset ys"
  then have "mset (sort ys) = mset xs" by simp
  then show "sort xs = sort ys" by (rule properties_for_sort) simp
qed

lemma faceKey_eq_iff:
  "faceKey f = faceKey g \<longleftrightarrow>
     mset [coords (face_a f), coords (face_b f), coords (face_c f)]
       = mset [coords (face_a g), coords (face_b g), coords (face_c g)]"
  unfolding faceKey_def sort_eq_iff_mset by simp

lemma faceKey_order_insensitive:
  "faceKey (Face a b c) = faceKey (Face b a c)"
  "faceKey (Face a b c) = faceKey (Face a c b)"
  "faceKey (Face a b c) = faceKey (Face c b a)"
  by (simp_all add: faceKey_eq_iff)

lemma faceKey_by_value:
  "equals a a' \<Longrightarrow> equals b b' \<Longrightarrow> equals c c' \<Longrightarrow> faceKey (Face a b c) = faceKey (Face a' b' c')"
  by (simp add: faceKey_def equals_def coords_def)

lemma set_faceKey: "set (faceKey f) = {coords (face_a f), coords (face_b f), coords (face_c f)}"
  by (auto simp: faceKey_def)

lemma getFaces_new_Tetrahedron:
  "getFaces (new_Tetrahedron p1 p2 p3 p4)
     = [Face p1 p2 p3, Face p1 p2 p4, Face p1 p3 p4, Face p2 p3 p4]"
  by (simp add: getFaces_def Let_def)

lemma determinant_rows_equal:
  "determinant r r s = 0" "determinant r s r = 0" "determinant s r r = 0"
  by (cases r, cases s, simp add: algebra_simps)+

lemma determinant_row_zero:
  "determinant (0, 0, 0) r s = 0" "determinant r (0, 0, 0) s = 0" "determinant r s (0, 0, 0) = 0"
  by (cases r, cases s, simp)+

lemma sub_self: "sub v v = (0, 0, 0)"
  by (cases v) simp

lemma edgeDeterminant_zero:
  "coords a = coords b \<or> coords a = coords c \<or> coords a = coords d
   \<or> coords b = coords c \<or> coords b = coords d \<or> coords c = coords d
   \<Longrightarrow> edgeDeterminant a b c d = 0"
  unfolding edgeDeterminant_def
  by (elim disjE) (simp_all add: determinant_rows_equal determinant_row_zero sub_self del: determinant.simps)

lemma distinct_vertices:
  assumes "circumcenter (new_Tetrahedron a b c d) \<noteq> None"
  shows "distinct (map coords [a, b, c, d])"
proof -
  from assms have "\<not> \<bar>edgeDeterminant a b c d\<bar> < 1 / 10 ^ 12"
    using circumcenter_defined_iff [of a b c d] by blast
  then have "edgeDeterminant a b c d \<noteq> 0" by auto
  with edgeDeterminant_zero [of a b c d] show ?thesis by auto
qed

lemma triple_neq: "w \<noteq> x \<Longrightarrow> w \<noteq> y \<Longrightarrow> w \<noteq> z \<Longrightarrow> w \<in> S \<Longrightarrow> {x, y, z} \<noteq> S"
  by auto

lemma key_neqI: "set k \<noteq> set k' \<Longrightarrow> k \<noteq> k'"
  by auto

lemma distinct_face_keys:
  assumes "distinct (map coords [a, b, c, d])"
  shows "distinct (map faceKey [Face a b c, Face a b d, Face a c d, Face b c d])"
proof -
  from assms have ne: "coords a \<noteq> coords b" "coords a \<noteq> coords c" "coords a \<noteq> coords d"
    "coords b \<noteq> coords c" "coords b \<noteq> coords d" "coords c \<noteq> coords d"
    by simp_all
  have s: "set (faceKey (Face a b c)) = {coords a, coords b, coords c}"
    "set (faceKey (Face a b d)) = {coords a, coords b, coords d}"
    "set (faceKey (Face a c d)) = {coords a, coords c, coords d}"
    "set (faceKey (Face b c d)) = {coords b, coords c, coords d}"
    by (simp_all add: set_faceKey)
  have 1: "faceKey (Face a b c) \<noteq> faceKey (Face a b d)"
    by (rule key_neqI, unfold s, rule triple_neq [of "coords d"]) (use ne in simp_all)
  have 2: "faceKey (Face a b c) \<noteq> faceKey (Face a c d)"
    by (rule key_neqI, unfold s, rule triple_neq [of "coords d"]) (use ne in simp_all)
  have 3: "faceKey (Face a b c) \<noteq> faceKey (Face b c d)"
    by (rule key_neqI, unfold s, rule triple_neq [of "coords d"]) (use ne in simp_all)
  have 4: "faceKey (Face a b d) \<noteq> faceKey (Face a c d)"
    by (rule key_neqI, unfold s, rule triple_neq [of "coords c"]) (use ne in simp_all)
  have 5: "faceKey (Face a b d) \<noteq> faceKey (Face b c d)"
    by (rule key_neqI, unfold s, rule triple_neq [of "coords c"]) (use ne in simp_all)
  have 6: "faceKey (Face a c d) \<noteq> faceKey (Face b c d)"
    by (rule key_neqI, unfold s, rule triple_neq [of "coords b"]) (use ne in simp_all)
  from 1 2 3 4 5 6 show ?thesis by simp
qed

lemma count_list_distinct:
  "distinct xs \<Longrightarrow> count_list xs k = (if k \<in> set xs then 1 else 0)"
  by (induction xs) auto

lemma occurrences_tetrasWithFace:
  assumes "\<forall>t \<in> set ts. distinct (map faceKey (getFaces t))"
  shows "occurrences k ts = length (tetrasWithFace k ts)"
  using assms
proof (induction ts)
  case Nil
  show ?case by (simp add: occurrences_def allFaces_def tetrasWithFace_def)
next
  case (Cons t ts)
  then have ih: "occurrences k ts = length (tetrasWithFace k ts)"
    and dt: "distinct (map faceKey (getFaces t))" by simp_all
  have "occurrences k (t # ts) = count_list (map faceKey (getFaces t)) k + occurrences k ts"
    by (simp add: occurrences_def allFaces_def)
  also have "count_list (map faceKey (getFaces t)) k = (if k \<in> set (map faceKey (getFaces t)) then 1 else 0)"
    by (rule count_list_distinct [OF dt])
  finally show ?case by (simp add: ih tetrasWithFace_def)
qed

lemma bad_distinct_face_keys:
  assumes "constructed t" and "circumsphereContains t p"
  shows "distinct (map faceKey (getFaces t))"
proof -
  from assms(1) obtain a b c d where t: "t = new_Tetrahedron a b c d"
    unfolding constructed_def by blast
  from assms(2) have "circumcenter t \<noteq> None"
    by (auto simp: circumsphereContains_iff)
  then have "distinct (map coords [a, b, c, d])" unfolding t by (rule distinct_vertices)
  then show ?thesis unfolding t getFaces_new_Tetrahedron by (rule distinct_face_keys)
qed

text \<open>
  C2 (amended). Cavity closure: for every call addPoint p, no two faces of the returned
  cavity list have the same key; every returned face is a face of a removed tetrahedron; a
  face key is in the list exactly when it occurs an odd number of times among the faces of
  the removed tetrahedra. So a face occurring exactly once is in the list and a face
  occurring exactly twice, or any even number of times, is absent; when a key occurs at most
  twice it is in the list exactly when it occurs once. When all tetrahedra were
  built by the constructor, the number of occurrences of a key is the number of removed
  tetrahedra that have a face with that key.
\<close>

theorem cavity_faces_parity:
  fixes d p
  defines "bad \<equiv> badTetras (fst (addPoint d p))"
    and "cav \<equiv> cavityFaces (fst (addPoint d p))"
  shows "distinct (map faceKey cav)
   \<and> set cav \<subseteq> set (allFaces bad)
   \<and> (f \<in> set cav \<longrightarrow> odd (occurrences (faceKey f) bad))
   \<and> (f \<in> set (allFaces bad) \<and> odd (occurrences (faceKey f) bad) \<longrightarrow> faceKey f \<in> set (map faceKey cav))
   \<and> (even (occurrences (faceKey f) bad) \<longrightarrow> faceKey f \<notin> set (map faceKey cav))
   \<and> (occurrences (faceKey f) bad = 1 \<longrightarrow> faceKey f \<in> set (map faceKey cav))
   \<and> (occurrences (faceKey f) bad = 2 \<longrightarrow> faceKey f \<notin> set (map faceKey cav))
   \<and> (occurrences (faceKey f) bad \<le> 2
        \<longrightarrow> (faceKey f \<in> set (map faceKey cav) \<longleftrightarrow> occurrences (faceKey f) bad = 1))
   \<and> ((\<forall>t \<in> set (tetrahedra d). constructed t)
        \<longrightarrow> occurrences (faceKey f) bad = length (tetrasWithFace (faceKey f) bad))"
proof -
  note cp = cavity_properties [where d = d and p = p, folded bad_def cav_def]
  have par: "k \<in> set (map faceKey cav) \<longleftrightarrow> odd (occurrences k bad)" for k
    by (rule cp(3))
  have 1: "distinct (map faceKey cav)" by (rule cp(1))
  have 2: "set cav \<subseteq> set (allFaces bad)" by (rule cp(2))
  have 3: "f \<in> set cav \<longrightarrow> odd (occurrences (faceKey f) bad)"
    using par [of "faceKey f"] by auto
  have 4: "f \<in> set (allFaces bad) \<and> odd (occurrences (faceKey f) bad) \<longrightarrow> faceKey f \<in> set (map faceKey cav)"
    using par [of "faceKey f"] by blast
  have 5: "even (occurrences (faceKey f) bad) \<longrightarrow> faceKey f \<notin> set (map faceKey cav)"
    using par [of "faceKey f"] by blast
  have 6: "occurrences (faceKey f) bad = 1 \<longrightarrow> faceKey f \<in> set (map faceKey cav)"
    using par [of "faceKey f"] by simp
  have 7: "occurrences (faceKey f) bad = 2 \<longrightarrow> faceKey f \<notin> set (map faceKey cav)"
    using par [of "faceKey f"] by simp
  have 9: "occurrences (faceKey f) bad \<le> 2
        \<longrightarrow> (faceKey f \<in> set (map faceKey cav) \<longleftrightarrow> occurrences (faceKey f) bad = 1)"
  proof
    assume le: "occurrences (faceKey f) bad \<le> 2"
    then have "odd (occurrences (faceKey f) bad) \<longleftrightarrow> occurrences (faceKey f) bad = 1"
      by presburger
    then show "faceKey f \<in> set (map faceKey cav) \<longleftrightarrow> occurrences (faceKey f) bad = 1"
      using par [of "faceKey f"] by blast
  qed
  have 8: "(\<forall>t \<in> set (tetrahedra d). constructed t)
        \<longrightarrow> occurrences (faceKey f) bad = length (tetrasWithFace (faceKey f) bad)"
  proof
    assume c: "\<forall>t \<in> set (tetrahedra d). constructed t"
    have "\<forall>t \<in> set bad. distinct (map faceKey (getFaces t))"
    proof
      fix t assume "t \<in> set bad"
      then have "t \<in> set (tetrahedra d)" and "circumsphereContains t p"
        unfolding bad_def badTetras_addPoint by simp_all
      with c show "distinct (map faceKey (getFaces t))"
        by (auto intro: bad_distinct_face_keys)
    qed
    then show "occurrences (faceKey f) bad = length (tetrasWithFace (faceKey f) bad)"
      by (rule occurrences_tetrasWithFace)
  qed
  from 1 2 3 4 5 6 7 9 8 show ?thesis by blast
qed

section \<open>The example run, step by step\<close>

text \<open>
  Which tetrahedra of each state contain the next point, and what \<open>addPoint\<close> returns.
\<close>

lemma inside_q1:
  "circumsphereContains (new_Tetrahedron sp1 sp2 sp3 sp4) q1 = True"
  by (simp_all add: circumsphere_eval cong: let_weak_cong case_prod_weak_cong)

lemma step_q1:
  "addPoint state0 q1 =
       (\<lparr>badTetras = [new_Tetrahedron sp1 sp2 sp3 sp4],
        cavityFaces = [Face sp1 sp2 sp3,
         Face sp1 sp2 sp4,
         Face sp1 sp3 sp4,
         Face sp2 sp3 sp4],
        newTetras = [new_Tetrahedron q1 sp1 sp2 sp3,
         new_Tetrahedron q1 sp1 sp2 sp4,
         new_Tetrahedron q1 sp1 sp3 sp4,
         new_Tetrahedron q1 sp2 sp3 sp4]\<rparr>,
        state1)"
  by (simp add: addPoint_def inside_q1 getFaces_new_Tetrahedron toggleFace_def faceKey_def coords_def
      map_has_def map_delete_def map_set_def Let_def cong: let_weak_cong)

lemma inside_q2:
  "circumsphereContains (new_Tetrahedron q1 sp1 sp2 sp3) q2 = False"
  "circumsphereContains (new_Tetrahedron q1 sp1 sp2 sp4) q2 = False"
  "circumsphereContains (new_Tetrahedron q1 sp1 sp3 sp4) q2 = True"
  "circumsphereContains (new_Tetrahedron q1 sp2 sp3 sp4) q2 = False"
  by (simp_all add: circumsphere_eval cong: let_weak_cong case_prod_weak_cong)

lemma step_q2:
  "addPoint state1 q2 =
       (\<lparr>badTetras = [new_Tetrahedron q1 sp1 sp3 sp4],
        cavityFaces = [Face q1 sp1 sp3,
         Face q1 sp1 sp4,
         Face q1 sp3 sp4,
         Face sp1 sp3 sp4],
        newTetras = [new_Tetrahedron q2 q1 sp1 sp3,
         new_Tetrahedron q2 q1 sp1 sp4,
         new_Tetrahedron q2 q1 sp3 sp4,
         new_Tetrahedron q2 sp1 sp3 sp4]\<rparr>,
        state2)"
  by (simp add: addPoint_def inside_q2 getFaces_new_Tetrahedron toggleFace_def faceKey_def coords_def
      map_has_def map_delete_def map_set_def Let_def cong: let_weak_cong)

lemma inside_q3:
  "circumsphereContains (new_Tetrahedron q1 sp1 sp2 sp3) q3 = True"
  "circumsphereContains (new_Tetrahedron q1 sp1 sp2 sp4) q3 = True"
  "circumsphereContains (new_Tetrahedron q1 sp2 sp3 sp4) q3 = False"
  "circumsphereContains (new_Tetrahedron q2 q1 sp1 sp3) q3 = False"
  "circumsphereContains (new_Tetrahedron q2 q1 sp1 sp4) q3 = True"
  "circumsphereContains (new_Tetrahedron q2 q1 sp3 sp4) q3 = False"
  "circumsphereContains (new_Tetrahedron q2 sp1 sp3 sp4) q3 = True"
  by (simp_all add: circumsphere_eval cong: let_weak_cong case_prod_weak_cong)

lemma step_q3:
  "addPoint state2 q3 =
       (\<lparr>badTetras = [new_Tetrahedron q1 sp1 sp2 sp3,
         new_Tetrahedron q1 sp1 sp2 sp4,
         new_Tetrahedron q2 q1 sp1 sp4,
         new_Tetrahedron q2 sp1 sp3 sp4],
        cavityFaces = [Face q1 sp1 sp3,
         Face q1 sp2 sp3,
         Face sp1 sp2 sp3,
         Face q1 sp2 sp4,
         Face sp1 sp2 sp4,
         Face q2 q1 sp1,
         Face q2 q1 sp4,
         Face q2 sp1 sp3,
         Face q2 sp3 sp4,
         Face sp1 sp3 sp4],
        newTetras = [new_Tetrahedron q3 q1 sp1 sp3,
         new_Tetrahedron q3 q1 sp2 sp3,
         new_Tetrahedron q3 sp1 sp2 sp3,
         new_Tetrahedron q3 q1 sp2 sp4,
         new_Tetrahedron q3 sp1 sp2 sp4,
         new_Tetrahedron q3 q2 q1 sp1,
         new_Tetrahedron q3 q2 q1 sp4,
         new_Tetrahedron q3 q2 sp1 sp3,
         new_Tetrahedron q3 q2 sp3 sp4,
         new_Tetrahedron q3 sp1 sp3 sp4]\<rparr>,
        state3)"
  by (simp add: addPoint_def inside_q3 getFaces_new_Tetrahedron toggleFace_def faceKey_def coords_def
      map_has_def map_delete_def map_set_def Let_def cong: let_weak_cong)

lemma inside_q4:
  "circumsphereContains (new_Tetrahedron q1 sp2 sp3 sp4) q4 = True"
  "circumsphereContains (new_Tetrahedron q2 q1 sp1 sp3) q4 = True"
  "circumsphereContains (new_Tetrahedron q2 q1 sp3 sp4) q4 = True"
  "circumsphereContains (new_Tetrahedron q3 q1 sp1 sp3) q4 = True"
  "circumsphereContains (new_Tetrahedron q3 q1 sp2 sp3) q4 = True"
  "circumsphereContains (new_Tetrahedron q3 sp1 sp2 sp3) q4 = False"
  "circumsphereContains (new_Tetrahedron q3 q1 sp2 sp4) q4 = False"
  "circumsphereContains (new_Tetrahedron q3 sp1 sp2 sp4) q4 = False"
  "circumsphereContains (new_Tetrahedron q3 q2 q1 sp1) q4 = True"
  "circumsphereContains (new_Tetrahedron q3 q2 q1 sp4) q4 = False"
  "circumsphereContains (new_Tetrahedron q3 q2 sp1 sp3) q4 = True"
  "circumsphereContains (new_Tetrahedron q3 q2 sp3 sp4) q4 = True"
  "circumsphereContains (new_Tetrahedron q3 sp1 sp3 sp4) q4 = True"
  by (simp_all add: circumsphere_eval cong: let_weak_cong case_prod_weak_cong)

lemma step_q4:
  "addPoint state3 q4 =
       (\<lparr>badTetras = [new_Tetrahedron q1 sp2 sp3 sp4,
         new_Tetrahedron q2 q1 sp1 sp3,
         new_Tetrahedron q2 q1 sp3 sp4,
         new_Tetrahedron q3 q1 sp1 sp3,
         new_Tetrahedron q3 q1 sp2 sp3,
         new_Tetrahedron q3 q2 q1 sp1,
         new_Tetrahedron q3 q2 sp1 sp3,
         new_Tetrahedron q3 q2 sp3 sp4,
         new_Tetrahedron q3 sp1 sp3 sp4],
        cavityFaces = [Face q1 sp2 sp4,
         Face sp2 sp3 sp4,
         Face q2 q1 sp4,
         Face q3 q1 sp2,
         Face q3 sp2 sp3,
         Face q3 q2 q1,
         Face q3 q2 sp4,
         Face q3 sp1 sp3,
         Face q3 sp1 sp4,
         Face sp1 sp3 sp4],
        newTetras = [new_Tetrahedron q4 q1 sp2 sp4,
         new_Tetrahedron q4 sp2 sp3 sp4,
         new_Tetrahedron q4 q2 q1 sp4,
         new_Tetrahedron q4 q3 q1 sp2,
         new_Tetrahedron q4 q3 sp2 sp3,
         new_Tetrahedron q4 q3 q2 q1,
         new_Tetrahedron q4 q3 q2 sp4,
         new_Tetrahedron q4 q3 sp1 sp3,
         new_Tetrahedron q4 q3 sp1 sp4,
         new_Tetrahedron q4 sp1 sp3 sp4]\<rparr>,
        state4)"
  by (simp add: addPoint_def inside_q4 getFaces_new_Tetrahedron toggleFace_def faceKey_def coords_def
      map_has_def map_delete_def map_set_def Let_def cong: let_weak_cong)

lemma inside_q5:
  "circumsphereContains (new_Tetrahedron q3 sp1 sp2 sp3) q5 = False"
  "circumsphereContains (new_Tetrahedron q3 q1 sp2 sp4) q5 = False"
  "circumsphereContains (new_Tetrahedron q3 sp1 sp2 sp4) q5 = False"
  "circumsphereContains (new_Tetrahedron q3 q2 q1 sp4) q5 = False"
  "circumsphereContains (new_Tetrahedron q4 q1 sp2 sp4) q5 = False"
  "circumsphereContains (new_Tetrahedron q4 sp2 sp3 sp4) q5 = False"
  "circumsphereContains (new_Tetrahedron q4 q2 q1 sp4) q5 = False"
  "circumsphereContains (new_Tetrahedron q4 q3 q1 sp2) q5 = False"
  "circumsphereContains (new_Tetrahedron q4 q3 sp2 sp3) q5 = False"
  "circumsphereContains (new_Tetrahedron q4 q3 q2 q1) q5 = False"
  "circumsphereContains (new_Tetrahedron q4 q3 q2 sp4) q5 = True"
  "circumsphereContains (new_Tetrahedron q4 q3 sp1 sp3) q5 = False"
  "circumsphereContains (new_Tetrahedron q4 q3 sp1 sp4) q5 = False"
  "circumsphereContains (new_Tetrahedron q4 sp1 sp3 sp4) q5 = True"
  by (simp_all add: circumsphere_eval cong: let_weak_cong case_prod_weak_cong)

lemma step_q5:
  "addPoint state4 q5 =
       (\<lparr>badTetras = [new_Tetrahedron q4 q3 q2 sp4,
         new_Tetrahedron q4 sp1 sp3 sp4],
        cavityFaces = [Face q4 q3 q2,
         Face q4 q3 sp4,
         Face q4 q2 sp4,
         Face q3 q2 sp4,
         Face q4 sp1 sp3,
         Face q4 sp1 sp4,
         Face q4 sp3 sp4,
         Face sp1 sp3 sp4],
        newTetras = [new_Tetrahedron q5 q4 q3 q2,
         new_Tetrahedron q5 q4 q3 sp4,
         new_Tetrahedron q5 q4 q2 sp4,
         new_Tetrahedron q5 q3 q2 sp4,
         new_Tetrahedron q5 q4 sp1 sp3,
         new_Tetrahedron q5 q4 sp1 sp4,
         new_Tetrahedron q5 q4 sp3 sp4,
         new_Tetrahedron q5 sp1 sp3 sp4]\<rparr>,
        state5)"
  by (simp add: addPoint_def inside_q5 getFaces_new_Tetrahedron toggleFace_def faceKey_def coords_def
      map_has_def map_delete_def map_set_def Let_def cong: let_weak_cong)

section \<open>The first insertion\<close>

lemma toggle_four:
  assumes "distinct (map faceKey [f1, f2, f3, f4])"
  shows "foldl toggleFace [] [f1, f2, f3, f4]
           = [(faceKey f1, f1), (faceKey f2, f2), (faceKey f3, f3), (faceKey f4, f4)]"
  using assms by (auto simp: toggleFace_def map_has_def map_set_def map_delete_def Let_def)

lemma tetrahedra_new_Delaunay3D:
  "tetrahedra (new_Delaunay3D s)
     = [new_Tetrahedron (Vector3 0 (- s) (- s) (- s)) (Vector3 1 s (- s) 0)
          (Vector3 2 0 s (- s)) (Vector3 3 0 (- s) s)]"
  by (simp add: new_Delaunay3D_def Let_def)

lemma superPoints_new_Delaunay3D:
  "superPoints (new_Delaunay3D s)
     = [Vector3 0 (- s) (- s) (- s), Vector3 1 s (- s) 0, Vector3 2 0 s (- s), Vector3 3 0 (- s) s]"
  by (simp add: new_Delaunay3D_def Let_def)

text \<open>
  C7. First insertion: for every point p strictly inside the circumsphere of the
  super-tetrahedron of a fresh Delaunay3D, the first call addPoint p returns as removed the
  one-element list of the super-tetrahedron, as cavity boundary the four faces of the
  super-tetrahedron, and as created four tetrahedra, one per face, each made of p and the
  three vertices of the face; these four are the live tetrahedra afterwards.
\<close>

theorem first_insertion:
  fixes s :: real and p :: Vector3
  defines "p1 \<equiv> Vector3 0 (- s) (- s) (- s)" and "p2 \<equiv> Vector3 1 s (- s) 0"
    and "p3 \<equiv> Vector3 2 0 s (- s)" and "p4 \<equiv> Vector3 3 0 (- s) s"
  assumes inside: "circumsphereContains (new_Tetrahedron p1 p2 p3 p4) p"
  shows "tetrahedra (new_Delaunay3D s) = [new_Tetrahedron p1 p2 p3 p4]
    \<and> getFaces (new_Tetrahedron p1 p2 p3 p4) = [Face p1 p2 p3, Face p1 p2 p4, Face p1 p3 p4, Face p2 p3 p4]
    \<and> addPoint (new_Delaunay3D s) p
        = (\<lparr>badTetras = [new_Tetrahedron p1 p2 p3 p4],
            cavityFaces = [Face p1 p2 p3, Face p1 p2 p4, Face p1 p3 p4, Face p2 p3 p4],
            newTetras = [new_Tetrahedron p p1 p2 p3, new_Tetrahedron p p1 p2 p4,
                         new_Tetrahedron p p1 p3 p4, new_Tetrahedron p p2 p3 p4]\<rparr>,
           \<lparr>tetrahedra = [new_Tetrahedron p p1 p2 p3, new_Tetrahedron p p1 p2 p4,
                          new_Tetrahedron p p1 p3 p4, new_Tetrahedron p p2 p3 p4],
            superPoints = [p1, p2, p3, p4]\<rparr>)"
proof -
  let ?T = "new_Tetrahedron p1 p2 p3 p4"
  have t: "tetrahedra (new_Delaunay3D s) = [?T]"
    unfolding p1_def p2_def p3_def p4_def by (rule tetrahedra_new_Delaunay3D)
  have sp: "superPoints (new_Delaunay3D s) = [p1, p2, p3, p4]"
    unfolding p1_def p2_def p3_def p4_def by (rule superPoints_new_Delaunay3D)
  have d: "new_Delaunay3D s = \<lparr>tetrahedra = [?T], superPoints = [p1, p2, p3, p4]\<rparr>"
    using t sp by simp
  have f: "getFaces ?T = [Face p1 p2 p3, Face p1 p2 p4, Face p1 p3 p4, Face p2 p3 p4]"
    by (rule getFaces_new_Tetrahedron)
  have "constructed ?T" unfolding constructed_def by blast
  from bad_distinct_face_keys [OF this inside]
  have "distinct (map faceKey [Face p1 p2 p3, Face p1 p2 p4, Face p1 p3 p4, Face p2 p3 p4])"
    unfolding f .
  then have m: "foldl toggleFace [] [Face p1 p2 p3, Face p1 p2 p4, Face p1 p3 p4, Face p2 p3 p4]
      = [(faceKey (Face p1 p2 p3), Face p1 p2 p3), (faceKey (Face p1 p2 p4), Face p1 p2 p4),
         (faceKey (Face p1 p3 p4), Face p1 p3 p4), (faceKey (Face p2 p3 p4), Face p2 p3 p4)]"
    by (rule toggle_four)
  then have m': "toggleFace (toggleFace (toggleFace (toggleFace [] (Face p1 p2 p3)) (Face p1 p2 p4))
        (Face p1 p3 p4)) (Face p2 p3 p4)
      = [(faceKey (Face p1 p2 p3), Face p1 p2 p3), (faceKey (Face p1 p2 p4), Face p1 p2 p4),
         (faceKey (Face p1 p3 p4), Face p1 p3 p4), (faceKey (Face p2 p3 p4), Face p2 p3 p4)]"
    by simp
  have a: "addPoint \<lparr>tetrahedra = [?T], superPoints = [p1, p2, p3, p4]\<rparr> p
        = (\<lparr>badTetras = [?T],
            cavityFaces = [Face p1 p2 p3, Face p1 p2 p4, Face p1 p3 p4, Face p2 p3 p4],
            newTetras = [new_Tetrahedron p p1 p2 p3, new_Tetrahedron p p1 p2 p4,
                         new_Tetrahedron p p1 p3 p4, new_Tetrahedron p p2 p3 p4]\<rparr>,
           \<lparr>tetrahedra = [new_Tetrahedron p p1 p2 p3, new_Tetrahedron p p1 p2 p4,
                          new_Tetrahedron p p1 p3 p4, new_Tetrahedron p p2 p3 p4],
            superPoints = [p1, p2, p3, p4]\<rparr>)"
    unfolding addPoint_def using inside by (simp add: f m' Let_def)
  from t f a show ?thesis unfolding d by blast
qed

section \<open>The vertices of a reachable state\<close>

lemma faces_vertices:
  assumes "length (points t) = 4" and "f \<in> set (getFaces t)"
  shows "face_a f \<in> set (points t) \<and> face_b f \<in> set (points t) \<and> face_c f \<in> set (points t)"
  using assms by (auto simp: getFaces_def Let_def)

lemma addPoint_vertices:
  assumes inv: "\<forall>t \<in> set (tetrahedra d). length (points t) = 4 \<and> set (points t) \<subseteq> V"
    and p: "p \<in> V"
  shows "\<forall>t \<in> set (tetrahedra (snd (addPoint d p))). length (points t) = 4 \<and> set (points t) \<subseteq> V"
proof
  fix t assume "t \<in> set (tetrahedra (snd (addPoint d p)))"
  then consider (old) "t \<in> set (tetrahedra d)" | (new) "t \<in> set (newTetras (fst (addPoint d p)))"
    unfolding tetrahedra_addPoint by auto
  then show "length (points t) = 4 \<and> set (points t) \<subseteq> V"
  proof cases
    case old
    with inv show ?thesis by blast
  next
    case new
    then obtain f where f: "f \<in> set (cavityFaces (fst (addPoint d p)))"
      and t: "t = new_Tetrahedron p (face_a f) (face_b f) (face_c f)"
      unfolding newTetras_addPoint by auto
    from f cavity_properties(2) [of d p] have "f \<in> set (allFaces (badTetras (fst (addPoint d p))))"
      by blast
    then obtain u where u: "u \<in> set (badTetras (fst (addPoint d p)))" and fu: "f \<in> set (getFaces u)"
      unfolding allFaces_def by auto
    from u have ud: "u \<in> set (tetrahedra d)" unfolding badTetras_addPoint by simp
    with inv have l: "length (points u) = 4" and sub: "set (points u) \<subseteq> V" by blast+
    from faces_vertices [OF l fu] sub have "face_a f \<in> V" "face_b f \<in> V" "face_c f \<in> V" by blast+
    with p show ?thesis unfolding t by simp
  qed
qed

lemma addPoints_vertices:
  assumes "\<forall>t \<in> set (tetrahedra d). length (points t) = 4 \<and> set (points t) \<subseteq> V"
    and "set ps \<subseteq> V"
  shows "\<forall>t \<in> set (tetrahedra (addPoints d ps)). length (points t) = 4 \<and> set (points t) \<subseteq> V"
  using assms
proof (induction ps arbitrary: d)
  case Nil
  then show ?case by (simp add: addPoints_def)
next
  case (Cons p ps)
  from Cons.prems have "\<forall>t \<in> set (tetrahedra (snd (addPoint d p))). length (points t) = 4 \<and> set (points t) \<subseteq> V"
    by (intro addPoint_vertices) auto
  from Cons.IH [OF this] Cons.prems(2) show ?case by (simp add: addPoints_def)
qed

lemma superPoints_addPoints: "superPoints (addPoints d ps) = superPoints d"
  by (induction ps arbitrary: d) (simp_all add: addPoints_def superPoints_addPoint)

lemma vertices_reachable:
  assumes "t \<in> set (tetrahedra (addPoints (new_Delaunay3D s) ps))" and "v \<in> set (points t)"
  shows "v \<in> set (superPoints (new_Delaunay3D s)) \<or> v \<in> set ps"
proof -
  let ?V = "set (superPoints (new_Delaunay3D s)) \<union> set ps"
  have "\<forall>t \<in> set (tetrahedra (new_Delaunay3D s)). length (points t) = 4 \<and> set (points t) \<subseteq> ?V"
    by (simp add: tetrahedra_new_Delaunay3D superPoints_new_Delaunay3D)
  then have "\<forall>t \<in> set (tetrahedra (addPoints (new_Delaunay3D s) ps)). length (points t) = 4 \<and> set (points t) \<subseteq> ?V"
    by (rule addPoints_vertices) simp
  with assms show ?thesis by blast
qed

text \<open>
  C9 (amended). The final query is a pure filter by object identity: getTriangulation returns
  exactly the live tetrahedra none of whose vertices is one of the four vertex objects of
  the super-tetrahedron, in their order; it leaves the state as it was, so a second call
  returns the same. For a triangulation built by the constructor and addPoint from points
  that are other objects than the four super-tetrahedron vertices and have the coordinates
  of none of them, the result is the filter by coordinate value.
\<close>

theorem getTriangulation_identity_filter:
  "fst (getTriangulation d)
     = filter (\<lambda>t. \<not> list_ex (\<lambda>v. oid v \<in> set (map oid (superPoints d))) (points t)) (tetrahedra d)
   \<and> snd (getTriangulation d) = d
   \<and> getTriangulation (snd (getTriangulation d)) = getTriangulation d
   \<and> ((\<forall>p \<in> set ps. oid p \<notin> {0, 1, 2, 3}
                    \<and> \<not> list_ex (\<lambda>sp. equals sp p) (superPoints (new_Delaunay3D s)))
       \<longrightarrow> fst (getTriangulation (addPoints (new_Delaunay3D s) ps))
           = triangulationByValue (addPoints (new_Delaunay3D s) ps))"
proof (intro conjI impI)
  show "fst (getTriangulation d)
     = filter (\<lambda>t. \<not> list_ex (\<lambda>v. oid v \<in> set (map oid (superPoints d))) (points t)) (tetrahedra d)"
    by (simp add: getTriangulation_def array_includes_def)
  show "snd (getTriangulation d) = d" by (simp add: getTriangulation_def)
  then show "getTriangulation (snd (getTriangulation d)) = getTriangulation d" by simp
next
  let ?d = "addPoints (new_Delaunay3D s) ps"
  let ?sp = "superPoints (new_Delaunay3D s)"
  assume h: "\<forall>p \<in> set ps. oid p \<notin> {0, 1, 2, 3} \<and> \<not> list_ex (\<lambda>sp. equals sp p) ?sp"
  have sp: "superPoints ?d = ?sp" by (rule superPoints_addPoints)
  have agree: "array_includes ?sp v \<longleftrightarrow> list_ex (\<lambda>sp. equals sp v) ?sp"
    if "t \<in> set (tetrahedra ?d)" and "v \<in> set (points t)" for t v
  proof -
    from vertices_reachable [OF that] consider (super) "v \<in> set ?sp" | (ins) "v \<in> set ps" by blast
    then show ?thesis
    proof cases
      case super
      then have "array_includes ?sp v" by (auto simp: array_includes_def)
      moreover from super have "list_ex (\<lambda>sp. equals sp v) ?sp"
        by (auto simp: list_ex_iff equals_def)
      ultimately show ?thesis by blast
    next
      case ins
      with h have o: "oid v \<notin> {0, 1, 2, 3}" and e: "\<not> list_ex (\<lambda>sp. equals sp v) ?sp" by blast+
      from o have "\<not> array_includes ?sp v"
        by (simp add: array_includes_def superPoints_new_Delaunay3D)
      with e show ?thesis by blast
    qed
  qed
  have "filter (\<lambda>t. \<not> list_ex (\<lambda>p. array_includes ?sp p) (points t)) (tetrahedra ?d)
      = filter (\<lambda>t. \<not> list_ex (\<lambda>p. list_ex (\<lambda>sp. equals sp p) ?sp) (points t)) (tetrahedra ?d)"
    by (rule filter_cong [OF refl]) (use agree in \<open>auto simp: list_ex_iff\<close>)
  then show "fst (getTriangulation ?d) = triangulationByValue ?d"
    by (simp add: getTriangulation_def triangulationByValue_def sp)
qed

section \<open>The super-tetrahedron and the box\<close>

lemma hull_coordinate_sum:
  assumes "strictlyInsideHull (superPoints (new_Delaunay3D s)) (x, y, z)" and "0 \<le> s"
  shows "x + y + z \<le> 0"
proof -
  from assms(1) obtain l1 l2 l3 l4 :: real where
    pos: "0 < l1" "0 < l2" "0 < l3" "0 < l4"
    and x: "x = l1 * (- s) + l2 * s + l3 * 0 + l4 * 0"
    and y: "y = l1 * (- s) + l2 * (- s) + l3 * s + l4 * (- s)"
    and z: "z = l1 * (- s) + l2 * 0 + l3 * (- s) + l4 * s"
    unfolding strictlyInsideHull_def superPoints_new_Delaunay3D by auto
  have "x + y + z = - (3 * (l1 * s))" unfolding x y z by (simp add: algebra_simps)
  moreover from pos(1) assms(2) have "0 \<le> l1 * s" by simp
  ultimately show ?thesis by simp
qed

lemma hull_coordinate_yz:
  assumes "strictlyInsideHull (superPoints (new_Delaunay3D s)) (x, y, z)" and "0 < s"
  shows "y + z < 0"
proof -
  from assms(1) obtain l1 l2 l3 l4 :: real where
    pos: "0 < l1" "0 < l2" "0 < l3" "0 < l4"
    and y: "y = l1 * (- s) + l2 * (- s) + l3 * s + l4 * (- s)"
    and z: "z = l1 * (- s) + l2 * 0 + l3 * (- s) + l4 * s"
    unfolding strictlyInsideHull_def superPoints_new_Delaunay3D by auto
  have "y + z = - ((2 * l1 + l2) * s)" unfolding y z by (simp add: algebra_simps)
  moreover from pos(1,2) assms(2) have "0 < (2 * l1 + l2) * s" by simp
  ultimately show ?thesis by simp
qed

text \<open>
  C4. The super-tetrahedron of size 2 * BOX_SIZE does not enclose the bounding box: the
  point (5/2, 5/2, 5/2), which setupSimulation generates when Math.random() returns 3/4 three
  times and then 1/2 three times, lies in the box and not strictly inside the hull of the
  four super-tetrahedron vertices.
\<close>

theorem super_tetrahedron_misses_box:
  "setupPoint (3 / 4) (3 / 4) (3 / 4) (1 / 2) (1 / 2) (1 / 2) = (5 / 2, 5 / 2, 5 / 2)
   \<and> Box3_containsPoint bounds (5 / 2, 5 / 2, 5 / 2)
   \<and> \<not> strictlyInsideHull (superPoints (new_Delaunay3D (BOX_SIZE * 2))) (5 / 2, 5 / 2, 5 / 2)"
proof -
  have g: "setupPoint (3 / 4) (3 / 4) (3 / 4) (1 / 2) (1 / 2) (1 / 2) = (5 / 2, 5 / 2, 5 / 2)"
    by (simp add: setupPoint_def BOX_SIZE_def JITTER_AMOUNT_def Let_def)
  have b: "Box3_containsPoint bounds (5 / 2, 5 / 2, 5 / 2)"
    by (simp add: bounds_def BOX_SIZE_def)
  have o: "\<not> strictlyInsideHull (superPoints (new_Delaunay3D (BOX_SIZE * 2))) (5 / 2, 5 / 2, 5 / 2)"
  proof
    assume "strictlyInsideHull (superPoints (new_Delaunay3D (BOX_SIZE * 2))) (5 / 2, 5 / 2, 5 / 2)"
    then have "(5 / 2 :: real) + 5 / 2 + 5 / 2 \<le> 0"
      by (rule hull_coordinate_sum) (simp add: BOX_SIZE_def)
    then show False by simp
  qed
  from g b o show ?thesis by blast
qed

section \<open>The example run as a whole\<close>

lemma fresh_state: "new_Delaunay3D (BOX_SIZE * 2) = state0"
  by (simp add: new_Delaunay3D_def BOX_SIZE_def Let_def)

lemma run_q1: "addPoints (new_Delaunay3D (BOX_SIZE * 2)) [q1] = state1"
  by (simp add: addPoints_def fresh_state step_q1)

lemma run_q2: "addPoints (new_Delaunay3D (BOX_SIZE * 2)) [q1, q2] = state2"
  by (simp add: addPoints_def fresh_state step_q1 step_q2)

lemma run_q3: "addPoints (new_Delaunay3D (BOX_SIZE * 2)) [q1, q2, q3] = state3"
  by (simp add: addPoints_def fresh_state step_q1 step_q2 step_q3)

lemma run_q4: "addPoints (new_Delaunay3D (BOX_SIZE * 2)) [q1, q2, q3, q4] = state4"
  by (simp add: addPoints_def fresh_state step_q1 step_q2 step_q3 step_q4)

lemma run_q5: "addPoints (new_Delaunay3D (BOX_SIZE * 2)) [q1, q2, q3, q4, q5] = state5"
  by (simp add: addPoints_def fresh_state step_q1 step_q2 step_q3 step_q4 step_q5)

text \<open>
  C1. The Delaunay invariant fails on the run that inserts q1 = (0, -2, -1) and then
  q2 = (-3, 0, 0), two points of the bounding box, into the triangulation of size
  2 * BOX_SIZE: the live tetrahedron made of q2 and the super-tetrahedron face sp1, sp3, sp4
  does not have q1 among its vertices and has q1 strictly inside its circumsphere. q2 does
  not lie strictly inside the super-tetrahedron.
\<close>

theorem delaunay_violated_in_box:
  "Box3_containsPoint bounds (coords q1) \<and> Box3_containsPoint bounds (coords q2)
   \<and> \<not> strictlyInsideHull (superPoints (new_Delaunay3D (BOX_SIZE * 2))) (coords q2)
   \<and> addPoints (new_Delaunay3D (BOX_SIZE * 2)) [q1, q2] = state2
   \<and> new_Tetrahedron q2 sp1 sp3 sp4 \<in> set (tetrahedra state2)
   \<and> \<not> containsPoint (new_Tetrahedron q2 sp1 sp3 sp4) q1
   \<and> circumsphereContains (new_Tetrahedron q2 sp1 sp3 sp4) q1"
proof -
  have b: "Box3_containsPoint bounds (coords q1)" "Box3_containsPoint bounds (coords q2)"
    by (simp_all add: bounds_def BOX_SIZE_def coords_def)
  have m: "new_Tetrahedron q2 sp1 sp3 sp4 \<in> set (tetrahedra state2)" by simp
  have v: "\<not> containsPoint (new_Tetrahedron q2 sp1 sp3 sp4) q1"
    by (simp add: containsPoint_def equals_def)
  have c: "circumsphereContains (new_Tetrahedron q2 sp1 sp3 sp4) q1"
    by (simp add: circumsphere_eval cong: let_weak_cong case_prod_weak_cong)
  have o: "\<not> strictlyInsideHull (superPoints (new_Delaunay3D (BOX_SIZE * 2))) (coords q2)"
  proof
    assume "strictlyInsideHull (superPoints (new_Delaunay3D (BOX_SIZE * 2))) (coords q2)"
    then have "strictlyInsideHull (superPoints (new_Delaunay3D (BOX_SIZE * 2))) (- 3, 0, 0)"
      by (simp add: coords_def)
    then have "(0 :: real) + 0 < 0"
      by (rule hull_coordinate_yz) (simp add: BOX_SIZE_def)
    then show False by simp
  qed
  from b o run_q2 m v c show ?thesis by blast
qed

section \<open>Instances\<close>

theorem first_insertion_witness:
  "circumsphereContains (new_Tetrahedron sp1 sp2 sp3 sp4) q1
   \<and> addPoint (new_Delaunay3D 20) q1
       = (\<lparr>badTetras = [new_Tetrahedron sp1 sp2 sp3 sp4],
           cavityFaces = [Face sp1 sp2 sp3, Face sp1 sp2 sp4, Face sp1 sp3 sp4, Face sp2 sp3 sp4],
           newTetras = [new_Tetrahedron q1 sp1 sp2 sp3, new_Tetrahedron q1 sp1 sp2 sp4,
                        new_Tetrahedron q1 sp1 sp3 sp4, new_Tetrahedron q1 sp2 sp3 sp4]\<rparr>,
          state1)"
proof -
  have h: "circumsphereContains (new_Tetrahedron sp1 sp2 sp3 sp4) q1"
    by (simp add: inside_q1)
  from first_insertion [where s = 20 and p = q1] h show ?thesis by simp
qed

theorem getTriangulation_identity_filter_witness:
  "oid q1 \<notin> {0, 1, 2, 3} \<and> oid q2 \<notin> {0, 1, 2, 3} \<and> oid q3 \<notin> {0, 1, 2, 3} \<and> oid q4 \<notin> {0, 1, 2, 3}
   \<and> \<not> list_ex (\<lambda>sp. equals sp q1) (superPoints (new_Delaunay3D 20))
   \<and> \<not> list_ex (\<lambda>sp. equals sp q2) (superPoints (new_Delaunay3D 20))
   \<and> \<not> list_ex (\<lambda>sp. equals sp q3) (superPoints (new_Delaunay3D 20))
   \<and> \<not> list_ex (\<lambda>sp. equals sp q4) (superPoints (new_Delaunay3D 20))
   \<and> fst (getTriangulation (addPoints (new_Delaunay3D 20) [q1, q2, q3, q4]))
       = triangulationByValue (addPoints (new_Delaunay3D 20) [q1, q2, q3, q4])"
proof -
  have h: "\<forall>p \<in> set [q1, q2, q3, q4]. oid p \<notin> {0, 1, 2, 3}
             \<and> \<not> list_ex (\<lambda>sp. equals sp p) (superPoints (new_Delaunay3D 20))"
    by (simp add: superPoints_new_Delaunay3D equals_def)
  from getTriangulation_identity_filter [where d = state0 and ps = "[q1, q2, q3, q4]" and s = 20] h
  have "fst (getTriangulation (addPoints (new_Delaunay3D 20) [q1, q2, q3, q4]))
       = triangulationByValue (addPoints (new_Delaunay3D 20) [q1, q2, q3, q4])" by blast
  with h show ?thesis by simp
qed

text \<open>
  Against C9 as stated: after q1, q2, q3, q4 and q5, the query returns two tetrahedra, both
  made of inserted points only. The second has the vertex q5, which has the coordinates of
  a super-tetrahedron vertex: the filter by coordinate value returns the first alone.
\<close>

theorem triangulation_by_value_counterexample:
  "fst (getTriangulation (addPoints (new_Delaunay3D (BOX_SIZE * 2)) [q1, q2, q3, q4, q5]))
     = [new_Tetrahedron q4 q3 q2 q1, new_Tetrahedron q5 q4 q3 q2]
   \<and> triangulationByValue (addPoints (new_Delaunay3D (BOX_SIZE * 2)) [q1, q2, q3, q4, q5])
     = [new_Tetrahedron q4 q3 q2 q1]
   \<and> fst (getTriangulation (addPoints (new_Delaunay3D (BOX_SIZE * 2)) [q1, q2, q3, q4, q5]))
     \<noteq> triangulationByValue (addPoints (new_Delaunay3D (BOX_SIZE * 2)) [q1, q2, q3, q4, q5])"
  unfolding run_q5
  by (simp add: getTriangulation_def triangulationByValue_def array_includes_def equals_def)

theorem cavity_faces_parity_witness:
  "Face sp1 sp2 sp3 \<in> set (cavityFaces (fst (addPoint state0 q1)))
   \<and> occurrences (faceKey (Face sp1 sp2 sp3)) (badTetras (fst (addPoint state0 q1))) = 1
   \<and> occurrences (faceKey (Face q1 sp1 sp2)) (badTetras (fst (addPoint state2 q3))) = 2
   \<and> faceKey (Face q1 sp1 sp2) \<notin> set (map faceKey (cavityFaces (fst (addPoint state2 q3))))
   \<and> length (tetrasWithFace (faceKey (Face q1 sp1 sp2)) (badTetras (fst (addPoint state2 q3)))) = 2"
proof -
  have a: "Face sp1 sp2 sp3 \<in> set (cavityFaces (fst (addPoint state0 q1)))"
    by (simp add: step_q1)
  have o2: "occurrences (faceKey (Face q1 sp1 sp2)) (badTetras (fst (addPoint state2 q3))) = 2"
    by (simp add: step_q3 occurrences_def allFaces_def getFaces_new_Tetrahedron faceKey_def coords_def)
  have c: "\<forall>t \<in> set (tetrahedra state2). constructed t"
    unfolding constructed_def by auto
  note t1 = cavity_faces_parity [where f = "Face sp1 sp2 sp3" and d = state0 and p = q1]
  note t2 = cavity_faces_parity [where f = "Face q1 sp1 sp2" and d = state2 and p = q3]
  from t1 a have o1: "odd (occurrences (faceKey (Face sp1 sp2 sp3)) (badTetras (fst (addPoint state0 q1))))"
    by blast
  have "occurrences (faceKey (Face sp1 sp2 sp3)) (badTetras (fst (addPoint state0 q1))) \<le> 1"
    by (simp add: step_q1 occurrences_def allFaces_def getFaces_new_Tetrahedron faceKey_def coords_def)
  with o1 have o1': "occurrences (faceKey (Face sp1 sp2 sp3)) (badTetras (fst (addPoint state0 q1))) = 1"
    by presburger
  from t2 o2 have n: "faceKey (Face q1 sp1 sp2) \<notin> set (map faceKey (cavityFaces (fst (addPoint state2 q3))))"
    by blast
  from t2 c o2 have l: "length (tetrasWithFace (faceKey (Face q1 sp1 sp2)) (badTetras (fst (addPoint state2 q3)))) = 2"
    by metis
  from a o1' o2 n l show ?thesis by blast
qed

text \<open>
  Against C2 as stated: inserting q4 after q1, q2 and q3, the face q3, sp1, sp3 is in the
  returned cavity list and belongs to three removed tetrahedra.
\<close>

theorem cavity_exactly_one_counterexample:
  "addPoints (new_Delaunay3D (BOX_SIZE * 2)) [q1, q2, q3] = state3
   \<and> Face q3 sp1 sp3 \<in> set (cavityFaces (fst (addPoint state3 q4)))
   \<and> tetrasWithFace (faceKey (Face q3 sp1 sp3)) (badTetras (fst (addPoint state3 q4)))
       = [new_Tetrahedron q3 q1 sp1 sp3, new_Tetrahedron q3 q2 sp1 sp3, new_Tetrahedron q3 sp1 sp3 sp4]
   \<and> occurrences (faceKey (Face q3 sp1 sp3)) (badTetras (fst (addPoint state3 q4))) = 3"
proof -
  have a: "Face q3 sp1 sp3 \<in> set (cavityFaces (fst (addPoint state3 q4)))"
    by (simp add: step_q4)
  have t: "tetrasWithFace (faceKey (Face q3 sp1 sp3)) (badTetras (fst (addPoint state3 q4)))
       = [new_Tetrahedron q3 q1 sp1 sp3, new_Tetrahedron q3 q2 sp1 sp3, new_Tetrahedron q3 sp1 sp3 sp4]"
    by (simp add: step_q4 tetrasWithFace_def getFaces_new_Tetrahedron faceKey_def coords_def)
  have o: "occurrences (faceKey (Face q3 sp1 sp3)) (badTetras (fst (addPoint state3 q4))) = 3"
    by (simp add: step_q4 occurrences_def allFaces_def getFaces_new_Tetrahedron faceKey_def coords_def)
  from run_q3 a t o show ?thesis by blast
qed

section \<open>Instances of the Voronoi cases\<close>

lemma voronoi_fixture_centers:
  "circumcenter (new_Tetrahedron a0 a1 a2 a3) = Some (1 / 2, 1 / 2, 1 / 2)"
  "circumcenter (new_Tetrahedron a1 a2 a3 a4) = Some (1 / 2, 1 / 2, 1 / 2)"
  "circumcenter (new_Tetrahedron a1 a2 a3 a5) = Some (299 / 58, 299 / 58, 299 / 58)"
  "circumcenter (new_Tetrahedron a1 a2 a3 a6) = Some (181 / 32, 181 / 32, 181 / 32)"
  by (simp_all add: circumsphere_eval cong: let_weak_cong case_prod_weak_cong)

lemma voronoi_fixture_adjacent:
  "isAdjacent (new_Tetrahedron a0 a1 a2 a3) (new_Tetrahedron a1 a2 a3 a4)"
  "isAdjacent (new_Tetrahedron a0 a1 a2 a3) (new_Tetrahedron a1 a2 a3 a5)"
  "isAdjacent (new_Tetrahedron a1 a2 a3 a5) (new_Tetrahedron a0 a1 a2 a3)"
  "\<not> isAdjacent (new_Tetrahedron a0 a1 a2 a3) (new_Tetrahedron a0 a1 a2 a3)"
  by (simp_all add: isAdjacent_def equals_def)

lemma voronoi_fixture_inside:
  "Box3_containsPoint bounds (1 / 2, 1 / 2, 1 / 2)"
  "\<not> Box3_containsPoint bounds (299 / 58, 299 / 58, 299 / 58)"
  "\<not> Box3_containsPoint bounds (181 / 32, 181 / 32, 181 / 32)"
  by (simp_all add: bounds_def BOX_SIZE_def)

theorem voronoi_clipping_witness:
  "voronoiEdge (exit_at (5, 5, 5)) (new_Tetrahedron a0 a1 a2 a3) (new_Tetrahedron a1 a2 a3 a4)
     = [1 / 2, 1 / 2, 1 / 2, 1 / 2, 1 / 2, 1 / 2]
   \<and> voronoiEdge (exit_at (5, 5, 5)) (new_Tetrahedron a0 a1 a2 a3) (new_Tetrahedron a1 a2 a3 a5)
     = [1 / 2, 1 / 2, 1 / 2, 5, 5, 5]
   \<and> voronoiEdge (exit_at (5, 5, 5)) (new_Tetrahedron a1 a2 a3 a5) (new_Tetrahedron a0 a1 a2 a3)
     = [1 / 2, 1 / 2, 1 / 2, 5, 5, 5]
   \<and> voronoiEdge miss (new_Tetrahedron a0 a1 a2 a3) (new_Tetrahedron a1 a2 a3 a5) = []
   \<and> voronoiEdge (exit_at (5, 5, 5)) (new_Tetrahedron a1 a2 a3 a5) (new_Tetrahedron a1 a2 a3 a6) = []
   \<and> voronoiEdge (exit_at (5, 5, 5)) (new_Tetrahedron a0 a1 a2 a3) (new_Tetrahedron a0 a1 a2 a3) = []"
proof -
  note c = voronoi_fixture_centers and a = voronoi_fixture_adjacent and b = voronoi_fixture_inside
  from voronoi_clipping [where ib = "exit_at (5, 5, 5)" and ti = "new_Tetrahedron a0 a1 a2 a3"
      and tj = "new_Tetrahedron a1 a2 a3 a4" and ?c1.0 = "(1 / 2, 1 / 2, 1 / 2)" and ?c2.0 = "(1 / 2, 1 / 2, 1 / 2)"]
    c a b
  have 1: "voronoiEdge (exit_at (5, 5, 5)) (new_Tetrahedron a0 a1 a2 a3) (new_Tetrahedron a1 a2 a3 a4)
     = [1 / 2, 1 / 2, 1 / 2, 1 / 2, 1 / 2, 1 / 2]" by simp
  from voronoi_clipping [where ib = "exit_at (5, 5, 5)" and ti = "new_Tetrahedron a0 a1 a2 a3"
      and tj = "new_Tetrahedron a1 a2 a3 a5" and ?c1.0 = "(1 / 2, 1 / 2, 1 / 2)"
      and ?c2.0 = "(299 / 58, 299 / 58, 299 / 58)"]
    c a b
  have 2: "voronoiEdge (exit_at (5, 5, 5)) (new_Tetrahedron a0 a1 a2 a3) (new_Tetrahedron a1 a2 a3 a5)
     = [1 / 2, 1 / 2, 1 / 2, 5, 5, 5]" by simp
  from voronoi_clipping [where ib = "exit_at (5, 5, 5)" and ti = "new_Tetrahedron a1 a2 a3 a5"
      and tj = "new_Tetrahedron a0 a1 a2 a3" and ?c2.0 = "(1 / 2, 1 / 2, 1 / 2)"
      and ?c1.0 = "(299 / 58, 299 / 58, 299 / 58)"]
    c a b
  have 3: "voronoiEdge (exit_at (5, 5, 5)) (new_Tetrahedron a1 a2 a3 a5) (new_Tetrahedron a0 a1 a2 a3)
     = [1 / 2, 1 / 2, 1 / 2, 5, 5, 5]" by simp
  from voronoi_clipping [where ib = miss and ti = "new_Tetrahedron a0 a1 a2 a3"
      and tj = "new_Tetrahedron a1 a2 a3 a5" and ?c1.0 = "(1 / 2, 1 / 2, 1 / 2)"
      and ?c2.0 = "(299 / 58, 299 / 58, 299 / 58)"]
    c a b
  have 4: "voronoiEdge miss (new_Tetrahedron a0 a1 a2 a3) (new_Tetrahedron a1 a2 a3 a5) = []" by simp
  from voronoi_clipping [where ib = "exit_at (5, 5, 5)" and ti = "new_Tetrahedron a1 a2 a3 a5"
      and tj = "new_Tetrahedron a1 a2 a3 a6" and ?c1.0 = "(299 / 58, 299 / 58, 299 / 58)"
      and ?c2.0 = "(181 / 32, 181 / 32, 181 / 32)"]
    c b
  have 5: "voronoiEdge (exit_at (5, 5, 5)) (new_Tetrahedron a1 a2 a3 a5) (new_Tetrahedron a1 a2 a3 a6) = []"
    by simp
  from voronoi_clipping [where ib = "exit_at (5, 5, 5)" and ti = "new_Tetrahedron a0 a1 a2 a3"
      and tj = "new_Tetrahedron a0 a1 a2 a3"]
    a
  have 6: "voronoiEdge (exit_at (5, 5, 5)) (new_Tetrahedron a0 a1 a2 a3) (new_Tetrahedron a0 a1 a2 a3) = []"
    by simp
  from 1 2 3 4 5 6 show ?thesis by blast
qed

end
